theory Spec2Isabelle
  imports Complex_Main "HOL-Library.Word" "HOL-Library.Char_ord" "HOL-Library.List_Lexorder"
begin

chapter \<open>The program\<close>

section \<open>Common types\<close>

text \<open>
  Go's \<^verbatim>\<open>execute.Time\<close> and \<^verbatim>\<open>execute.Duration\<close> are 64-bit signed integers
  (nanosecond counts); \<^verbatim>\<open>+\<close> and \<^verbatim>\<open>-\<close> wrap around and the comparisons are signed.
  They are words of 64 bits here, read with \<open>sint\<close> and compared with \<open><s\<close> and \<open>\<le>s\<close>.
  A Go \<^verbatim>\<open>error\<close> value is an opaque message; the two errors that
  \<^verbatim>\<open>fmt.Errorf\<close> formats from a column type and from a URL scheme keep their arguments.

  Modelled from the spec: \<open>DataType\<close>, the type of a column, is declared elsewhere
  in the package; the spec lists Bool, Int, UInt, Float, String and Time, and the code's
  \<^verbatim>\<open>default\<close> branch over a column type adds the invalid type.
\<close>

type_synonym Time = "64 word"
type_synonym Duration = "64 word"
type_synonym DatasetID = nat

datatype DataType = TInvalid | TBool | TInt | TUInt | TFloat | TString | TTime

datatype error =
    Err string
  | ErrColumnType string DataType
  | ErrScheme string

section \<open>The storage source (query/execute/source.go)\<close>

record Window =
  Every :: Duration
  Period :: Duration

record Bounds =
  Start :: Time
  Stop :: Time

text \<open>
  The source holds its reader (an interface value with state of its own, here the state
  \<open>'r\<close>), the window, the bounds, the subscribed transformations \<open>ts\<close> (each known by a
  handle) and the current time. The read specification is fixed for a run and is part of
  the reader function.
\<close>

record 'r storageSource =
  idS :: DatasetID
  reader :: 'r
  window :: Window
  bounds :: Bounds
  ts :: "nat list"
  currentTime :: Time

text \<open>
  \<^verbatim>\<open>StorageReader.Read(ctx, trace, readSpec, start, stop)\<close> returns a block iterator or an
  error, and may change the reader's state. A block iterator is the list of blocks its
  \<^verbatim>\<open>Do\<close> visits.
\<close>

type_synonym ('r, 'b) StorageReader = "'r \<Rightarrow> Time \<Rightarrow> Time \<Rightarrow> (error + 'b list) \<times> 'r"

text \<open>
  What a run does to the outside is recorded as a trace: the reads it issues, the lines it
  logs, and the calls it makes on each subscribed transformation. The results of the calls
  on a transformation are dropped by \<^verbatim>\<open>Run\<close>, so the trace is all there is to observe.
\<close>

datatype 'b event =
    EvRead Time Time
  | EvLog error
  | EvProcess nat DatasetID 'b
  | EvUpdateProcessingTime nat DatasetID
  | EvUpdateWatermark nat DatasetID Time
  | EvFinish nat DatasetID "error option"

text \<open>
  \<^verbatim>\<open>Next\<close>: the window \<open>[currentTime - Period, currentTime]\<close> is computed, the current time
  is advanced by \<open>Every\<close>, and then either the stop lies past the bounds (no read,
  \<^verbatim>\<open>ok = false\<close>), or the reader is called; a reader error is logged and gives
  \<^verbatim>\<open>ok = false\<close> too. \<open>None\<close> is \<^verbatim>\<open>ok = false\<close>; \<open>Some (bi, mark)\<close> is
  \<^verbatim>\<open>(bi, mark, true)\<close>.
\<close>

definition Next ::
  "('r, 'b) StorageReader \<Rightarrow> 'r storageSource
    \<Rightarrow> ('b list \<times> Time) option \<times> 'b event list \<times> 'r storageSource" where
  "Next rd s =
     (let start = currentTime s - Period (window s);
          stop = currentTime s;
          s1 = s\<lparr>currentTime := currentTime s + Every (window s)\<rparr>
      in if Stop (bounds s1) <s stop then (None, [], s1)
         else (case rd (reader s1) start stop of
                 (Inl err, r') \<Rightarrow> (None, [EvRead start stop, EvLog err], s1\<lparr>reader := r'\<rparr>)
               | (Inr bi, r') \<Rightarrow> (Some (bi, stop), [EvRead start stop], s1\<lparr>reader := r'\<rparr>)))"

text \<open>
  The body of the loop of \<^verbatim>\<open>Run\<close> for one batch: every block goes to every
  transformation, each followed by a processing-time update, and then every transformation
  gets the watermark.
\<close>

definition batch_events :: "DatasetID \<Rightarrow> nat list \<Rightarrow> 'b list \<Rightarrow> Time \<Rightarrow> 'b event list" where
  "batch_events i subs blocks mark =
     concat (map (\<lambda>b. concat (map (\<lambda>t. [EvProcess t i b, EvUpdateProcessingTime t i]) subs)) blocks)
     @ map (\<lambda>t. EvUpdateWatermark t i mark) subs"

text \<open>
  The loop of \<^verbatim>\<open>Run\<close> need not end (a window with \<open>Every = 0\<close> inside the bounds reads
  the same window for ever), so it runs on fuel: the flag says whether
  \<^verbatim>\<open>Next\<close> returned \<^verbatim>\<open>ok = false\<close> within the fuel, and the trace is what was done
  up to there, so that a property of every trace of every fuel is a property of the
  unbounded run as well.
\<close>

fun Run_loop ::
  "('r, 'b) StorageReader \<Rightarrow> nat \<Rightarrow> 'r storageSource \<Rightarrow> bool \<times> 'b event list" where
  "Run_loop rd 0 s = (False, [])"
| "Run_loop rd (Suc n) s =
     (case Next rd s of
        (None, evs, s') \<Rightarrow> (True, evs)
      | (Some (blocks, mark), evs, s') \<Rightarrow>
          (case Run_loop rd n s' of
             (fin, rest) \<Rightarrow> (fin, evs @ batch_events (idS s') (ts s') blocks mark @ rest)))"

text \<open>
  \<^verbatim>\<open>Run\<close>: the loop, then \<^verbatim>\<open>Finish(s.id, nil)\<close> on every transformation. \<open>None\<close> when
  the fuel does not suffice.
\<close>

definition Run ::
  "('r, 'b) StorageReader \<Rightarrow> nat \<Rightarrow> 'r storageSource \<Rightarrow> 'b event list option" where
  "Run rd n s =
     (case Run_loop rd n s of
        (True, evs) \<Rightarrow> Some (evs @ map (\<lambda>t. EvFinish t (idS s) None) (ts s))
      | (False, evs) \<Rightarrow> None)"

text \<open>The marks one transformation receives through \<^verbatim>\<open>UpdateWatermark\<close>, in order.\<close>

fun watermarks :: "nat \<Rightarrow> 'b event list \<Rightarrow> Time list" where
  "watermarks t [] = []"
| "watermarks t (EvUpdateWatermark t' i m # evs) =
     (if t' = t then m # watermarks t evs else watermarks t evs)"
| "watermarks t (_ # evs) = watermarks t evs"

text \<open>The stop times of the reads of a trace, and the errors passed to \<^verbatim>\<open>Finish\<close>.\<close>

fun read_stops :: "'b event list \<Rightarrow> Time list" where
  "read_stops [] = []"
| "read_stops (EvRead start stop # evs) = stop # read_stops evs"
| "read_stops (_ # evs) = read_stops evs"

fun finishes :: "'b event list \<Rightarrow> (nat \<times> error option) list" where
  "finishes [] = []"
| "finishes (EvFinish t i e # evs) = (t, e) # finishes evs"
| "finishes (_ # evs) = finishes evs"

section \<open>Floating point\<close>

text \<open>
  A \<^verbatim>\<open>float64\<close> is a finite real, an infinity or NaN. Every arithmetic operation
  computes the exact real result and rounds it with \<open>rnd\<close>, the rounding of the format
  (to a finite value, or to an infinity on overflow); \<open>rnd\<close> is a parameter, and a
  theorem says what it needs of it. The operations on infinities and NaN follow IEEE 754.
  The sign of a zero is not kept: it shows only in the sign of a quotient by zero.
\<close>

datatype float64 = Fin real | PInf | NInf | NaN

type_synonym rounding = "real \<Rightarrow> float64"

fun fneg :: "float64 \<Rightarrow> float64" where
  "fneg (Fin a) = Fin (- a)"
| "fneg PInf = NInf"
| "fneg NInf = PInf"
| "fneg NaN = NaN"

fun fadd :: "rounding \<Rightarrow> float64 \<Rightarrow> float64 \<Rightarrow> float64" where
  "fadd rnd NaN y = NaN"
| "fadd rnd x NaN = NaN"
| "fadd rnd PInf NInf = NaN"
| "fadd rnd NInf PInf = NaN"
| "fadd rnd PInf y = PInf"
| "fadd rnd NInf y = NInf"
| "fadd rnd x PInf = PInf"
| "fadd rnd x NInf = NInf"
| "fadd rnd (Fin a) (Fin b) = rnd (a + b)"

definition fsub :: "rounding \<Rightarrow> float64 \<Rightarrow> float64 \<Rightarrow> float64" where
  "fsub rnd x y = fadd rnd x (fneg y)"

fun fsign :: "float64 \<Rightarrow> real" where
  "fsign (Fin a) = sgn a"
| "fsign PInf = 1"
| "fsign NInf = - 1"
| "fsign NaN = 0"

definition finf :: "real \<Rightarrow> float64" where
  "finf s = (if s < 0 then NInf else PInf)"

fun fmul :: "rounding \<Rightarrow> float64 \<Rightarrow> float64 \<Rightarrow> float64" where
  "fmul rnd NaN y = NaN"
| "fmul rnd x NaN = NaN"
| "fmul rnd (Fin a) (Fin b) = rnd (a * b)"
| "fmul rnd x y = (if fsign x * fsign y = 0 then NaN else finf (fsign x * fsign y))"

fun fdiv :: "rounding \<Rightarrow> float64 \<Rightarrow> float64 \<Rightarrow> float64" where
  "fdiv rnd NaN y = NaN"
| "fdiv rnd x NaN = NaN"
| "fdiv rnd (Fin a) (Fin b) =
     (if b = 0 then (if a = 0 then NaN else finf a) else rnd (a / b))"
| "fdiv rnd (Fin a) y = Fin 0"
| "fdiv rnd x (Fin b) = finf (fsign x * (if b < 0 then - 1 else 1))"
| "fdiv rnd x y = NaN"

fun fsqrt :: "rounding \<Rightarrow> float64 \<Rightarrow> float64" where
  "fsqrt rnd (Fin a) = (if a < 0 then NaN else rnd (sqrt a))"
| "fsqrt rnd PInf = PInf"
| "fsqrt rnd NInf = NaN"
| "fsqrt rnd NaN = NaN"

text \<open>\<^verbatim>\<open>x < y\<close> on floats: false as soon as one side is NaN.\<close>

fun flt :: "float64 \<Rightarrow> float64 \<Rightarrow> bool" where
  "flt NaN y = False"
| "flt x NaN = False"
| "flt (Fin a) (Fin b) = (a < b)"
| "flt PInf y = False"
| "flt NInf NInf = False"
| "flt x PInf = True"
| "flt NInf y = True"
| "flt x NInf = False"

text \<open>The conversions \<^verbatim>\<open>float64(v)\<close> of a signed and of an unsigned 64-bit integer.\<close>

definition float64_of_int64 :: "rounding \<Rightarrow> 64 word \<Rightarrow> float64" where
  "float64_of_int64 rnd v = rnd (real_of_int (sint v))"

definition float64_of_uint64 :: "rounding \<Rightarrow> 64 word \<Rightarrow> float64" where
  "float64_of_uint64 rnd v = rnd (real (unat v))"




section \<open>The stddev aggregate (functions/stddev.go)\<close>

record StddevAgg =
  n_agg :: float64
  m2_agg :: float64
  mean_agg :: float64

definition reset :: "StddevAgg \<Rightarrow> StddevAgg" where
  "reset a = a\<lparr>n_agg := Fin 0, mean_agg := Fin 0, m2_agg := Fin 0\<rparr>"

definition NewIntAgg :: "StddevAgg \<Rightarrow> StddevAgg" where
  "NewIntAgg a = reset a"

definition NewUIntAgg :: "StddevAgg \<Rightarrow> StddevAgg" where
  "NewUIntAgg a = reset a"

definition NewFloatAgg :: "StddevAgg \<Rightarrow> StddevAgg" where
  "NewFloatAgg a = reset a"

text \<open>
  The body of the three \<^verbatim>\<open>Do\<close> loops, for one value already converted to
  \<^verbatim>\<open>float64\<close>: \<^verbatim>\<open>a.n++\<close>, \<^verbatim>\<open>delta = v - a.mean\<close>, \<^verbatim>\<open>a.mean += delta / a.n\<close>,
  \<^verbatim>\<open>delta2 = v - a.mean\<close>, \<^verbatim>\<open>a.m2 += delta * delta2\<close>.
\<close>

definition welford :: "rounding \<Rightarrow> StddevAgg \<Rightarrow> float64 \<Rightarrow> StddevAgg" where
  "welford rnd a v =
     (let n1 = fadd rnd (n_agg a) (Fin 1);
          delta = fsub rnd v (mean_agg a);
          mean1 = fadd rnd (mean_agg a) (fdiv rnd delta n1);
          delta2 = fsub rnd v mean1;
          m21 = fadd rnd (m2_agg a) (fmul rnd delta delta2)
      in a\<lparr>n_agg := n1, mean_agg := mean1, m2_agg := m21\<rparr>)"

definition DoInt :: "rounding \<Rightarrow> StddevAgg \<Rightarrow> 64 word list \<Rightarrow> StddevAgg" where
  "DoInt rnd a vs = foldl (\<lambda>a v. welford rnd a (float64_of_int64 rnd v)) a vs"

definition DoUInt :: "rounding \<Rightarrow> StddevAgg \<Rightarrow> 64 word list \<Rightarrow> StddevAgg" where
  "DoUInt rnd a vs = foldl (\<lambda>a v. welford rnd a (float64_of_uint64 rnd v)) a vs"

definition DoFloat :: "rounding \<Rightarrow> StddevAgg \<Rightarrow> float64 list \<Rightarrow> StddevAgg" where
  "DoFloat rnd a vs = foldl (welford rnd) a vs"

definition ValueFloat :: "rounding \<Rightarrow> StddevAgg \<Rightarrow> float64" where
  "ValueFloat rnd a =
     (if flt (n_agg a) (Fin 2) then NaN
      else fsqrt rnd (fdiv rnd (m2_agg a) (fsub rnd (n_agg a) (Fin 1))))"






section \<open>The toHTTP operation (package functions)\<close>

subsection \<open>The operation spec and its argument reader\<close>

record ToHTTPOpSpec =
  Addr :: string
  Method :: string
  Name :: string
  Headers :: "string \<rightharpoonup> string"
  URLParams :: "string \<rightharpoonup> string"
  Timeout :: Duration
  NoKeepAlive :: bool
  TimeColumn :: string
  TagColumns :: "string list"
  ValueColumns :: "string list"

definition DefaultToHTTPTimeout :: Duration where
  "DefaultToHTTPTimeout = 1 * 1000000000"

definition DefaultToHTTPUserAgent :: string where
  "DefaultToHTTPUserAgent = ''ifqld/dev''"

text \<open>
  Modelled from the spec: the two default column labels \<^verbatim>\<open>execute.DefaultTimeColLabel\<close>
  and \<^verbatim>\<open>execute.DefaultValueColLabel\<close> are constants of another package; the spec gives
  them as \<^verbatim>\<open>_time\<close> and \<^verbatim>\<open>_value\<close>.
\<close>

definition DefaultTimeColLabel :: string where
  "DefaultTimeColLabel = ''_time''"

definition DefaultValueColLabel :: string where
  "DefaultValueColLabel = ''_value''"

text \<open>
  \<^verbatim>\<open>query.Arguments\<close> is an interface; a value of it is the record of its methods. A
  getter returns \<^verbatim>\<open>(v, ok, err)\<close>: \<open>Inl err\<close> when \<^verbatim>\<open>err\<close> is not nil, \<open>Inr None\<close>
  when the argument is absent (\<^verbatim>\<open>ok = false\<close>), \<open>Inr (Some v)\<close> otherwise.
  \<^verbatim>\<open>GetArray\<close> is only ever called for arrays of strings.
\<close>

record Arguments =
  GetRequiredString :: "string \<Rightarrow> error + string"
  GetString :: "string \<Rightarrow> error + string option"
  GetDuration :: "string \<Rightarrow> error + Duration option"
  GetArray :: "string \<Rightarrow> error + string list option"

definition defaultHeaders :: "string \<rightharpoonup> string" where
  "defaultHeaders =
     [''Content-Type'' \<mapsto> ''application/vnd.influx'', ''User-Agent'' \<mapsto> DefaultToHTTPUserAgent]"

text \<open>
  \<^verbatim>\<open>ReadArgs\<close>. Both column slices are cut to length 0 first. The loop over
  \<^verbatim>\<open>tag_columns\<close> appends to \<^verbatim>\<open>o.TagColumns\<close>. The loop over a non-empty
  \<^verbatim>\<open>value_columns\<close> executes \<^verbatim>\<open>o.TagColumns = append(o.ValueColumns, v)\<close> for each
  label \<open>v\<close>: \<^verbatim>\<open>o.ValueColumns\<close> keeps its length 0 (\<open>valueColumns0\<close>) and
  \<^verbatim>\<open>o.TagColumns\<close> is replaced each time. \<^verbatim>\<open>sort.Strings\<close> is \<open>sort\<close> on the
  bytewise lexicographic order of strings. Each getter that returns an error ends
  \<^verbatim>\<open>ReadArgs\<close> with it (\<open>bindE\<close>). The library function \<^verbatim>\<open>strings.ToUpper\<close>, which
  maps every Unicode letter of the method to its upper case, is the parameter \<open>ToUpper\<close>.
\<close>

definition bindE :: "error + 'a \<Rightarrow> ('a \<Rightarrow> error + 'b) \<Rightarrow> error + 'b" where
  "bindE r f = (case r of Inl e \<Rightarrow> Inl e | Inr x \<Rightarrow> f x)"

definition ReadArgs ::
  "(string \<Rightarrow> string) \<Rightarrow> Arguments \<Rightarrow> ToHTTPOpSpec \<Rightarrow> error + ToHTTPOpSpec" where
  "ReadArgs ToUpper args sp =
     bindE (GetRequiredString args ''addr'') (\<lambda>addr.
     bindE (GetRequiredString args ''name'') (\<lambda>nm.
     bindE (GetString args ''method'') (\<lambda>mo.
     bindE (GetDuration args ''timeout'') (\<lambda>tmo.
     bindE (GetString args ''time_column'') (\<lambda>tc.
     bindE (GetArray args ''tag_columns'') (\<lambda>tgs.
     bindE (GetArray args ''value_columns'') (\<lambda>vls.
        (let method = ToUpper (case mo of None \<Rightarrow> ''POST'' | Some m \<Rightarrow> m);
             timeout = (case tmo of None \<Rightarrow> DefaultToHTTPTimeout | Some d \<Rightarrow> d);
             timeColumn = (case tc of None \<Rightarrow> DefaultTimeColLabel | Some c \<Rightarrow> c);
             tagColumns =
               (case tgs of None \<Rightarrow> []
                | Some xs \<Rightarrow> sort (foldl (\<lambda>acc x. acc @ [x]) [] xs));
             valueColumns0 = [];
             valueColumns =
               (case vls of None \<Rightarrow> valueColumns0 @ [DefaultValueColLabel]
                | Some vs \<Rightarrow>
                    if length vs = 0 then valueColumns0 @ [DefaultValueColLabel]
                    else valueColumns0);
             tagColumns1 =
               (case vls of None \<Rightarrow> tagColumns
                | Some vs \<Rightarrow>
                    if length vs = 0 then tagColumns
                    else sort (foldl (\<lambda>acc v. valueColumns0 @ [v]) tagColumns vs))
         in Inr (sp\<lparr>Addr := addr, Name := nm, Method := method, Timeout := timeout,
                    TimeColumn := timeColumn, TagColumns := tagColumns1,
                    ValueColumns := valueColumns, Headers := defaultHeaders\<rparr>)))))))))"

text \<open>
  \<^verbatim>\<open>createToHTTPOpSpec\<close> first has the administration add the parent from the
  arguments (\<^verbatim>\<open>a.AddParentFromArgs\<close>, a parameter here, \<open>None\<close> when it succeeds),
  then reads the arguments into \<^verbatim>\<open>new(ToHTTPOpSpec)\<close>.
\<close>

definition newToHTTPOpSpec :: ToHTTPOpSpec where
  "newToHTTPOpSpec =
     \<lparr>Addr = [], Method = [], Name = [], Headers = Map.empty, URLParams = Map.empty,
      Timeout = 0, NoKeepAlive = False, TimeColumn = [], TagColumns = [], ValueColumns = []\<rparr>"

definition createToHTTPOpSpec ::
  "(string \<Rightarrow> string) \<Rightarrow> (Arguments \<Rightarrow> error option) \<Rightarrow> Arguments
     \<Rightarrow> error + ToHTTPOpSpec" where
  "createToHTTPOpSpec ToUpper AddParentFromArgs args =
     (case AddParentFromArgs args of
        Some err \<Rightarrow> Inl err
      | None \<Rightarrow> ReadArgs ToUpper args newToHTTPOpSpec)"

subsection \<open>Deserialisation\<close>

text \<open>
  \<^verbatim>\<open>UnmarshalJSON\<close> calls two library functions, which are parameters here:
  \<^verbatim>\<open>json.Unmarshal\<close>, which fills the spec from the bytes and may fail, and
  \<^verbatim>\<open>url.ParseRequestURI\<close>, of whose result only the scheme is read. The spec written
  to is returned with the error (\<open>None\<close> is \<^verbatim>\<open>nil\<close>).
\<close>

record URL =
  Scheme :: string

definition UnmarshalJSON ::
  "(string \<Rightarrow> ToHTTPOpSpec \<Rightarrow> error option \<times> ToHTTPOpSpec) \<Rightarrow> (string \<Rightarrow> error + URL)
     \<Rightarrow> ToHTTPOpSpec \<Rightarrow> string \<Rightarrow> error option \<times> ToHTTPOpSpec" where
  "UnmarshalJSON json_Unmarshal ParseRequestURI sp b =
     (case json_Unmarshal b sp of
        (Some err, sp1) \<Rightarrow> (Some err, sp1)
      | (None, sp1) \<Rightarrow>
          (case ParseRequestURI (Addr sp1) of
             Inl err \<Rightarrow> (Some err, sp1)
           | Inr u \<Rightarrow>
               if \<not> (Scheme u = ''https'' \<or> Scheme u = ''http'' \<or> Scheme u = [])
               then (Some (ErrScheme (Scheme u)), sp1)
               else (None, sp1)))"

subsection \<open>Blocks and column readers\<close>

text \<open>
  Modelled from the spec: \<^verbatim>\<open>execute.Block\<close> and \<^verbatim>\<open>execute.ColReader\<close> are interfaces
  of another package. By the spec a block has its columns and, for each column, a typed
  array of the rows, read through an interface that yields column readers with typed
  slices. So a column reader is the list of its columns, each a label with a typed slice;
  a block is its column list together with the column readers that \<^verbatim>\<open>Do\<close> passes to
  its callback, in order. A typed accessor such as \<^verbatim>\<open>er.Strings(i)\<close> on a column of
  another type panics, and so does the index \<^verbatim>\<open>[0]\<close> into an empty slice.
\<close>

datatype column =
    InvalidCol
  | BoolCol "bool list"
  | IntCol "64 word list"
  | UIntCol "64 word list"
  | FloatCol "float64 list"
  | StringCol "string list"
  | TimeCol "Time list"

fun colType :: "column \<Rightarrow> DataType" where
  "colType InvalidCol = TInvalid"
| "colType (BoolCol xs) = TBool"
| "colType (IntCol xs) = TInt"
| "colType (UIntCol xs) = TUInt"
| "colType (FloatCol xs) = TFloat"
| "colType (StringCol xs) = TString"
| "colType (TimeCol xs) = TTime"

fun colLen :: "column \<Rightarrow> nat" where
  "colLen InvalidCol = 0"
| "colLen (BoolCol xs) = length xs"
| "colLen (IntCol xs) = length xs"
| "colLen (UIntCol xs) = length xs"
| "colLen (FloatCol xs) = length xs"
| "colLen (StringCol xs) = length xs"
| "colLen (TimeCol xs) = length xs"

record ColMeta =
  Label :: string
  Type :: DataType

type_synonym ColReader = "(string \<times> column) list"

definition Cols :: "ColReader \<Rightarrow> ColMeta list" where
  "Cols er = map (\<lambda>(l, c). \<lparr>Label = l, Type = colType c\<rparr>) er"

definition Len :: "ColReader \<Rightarrow> nat" where
  "Len er = (case er of [] \<Rightarrow> 0 | (l, c) # rest \<Rightarrow> colLen c)"

record Block =
  BlockCols :: "ColMeta list"
  BlockReaders :: "ColReader list"

text \<open>The number of rows of a block: the rows of all its column readers.\<close>

definition nrows :: "Block \<Rightarrow> nat" where
  "nrows b = sum_list (map Len (BlockReaders b))"

datatype panic = IndexOutOfRange | WrongColumnType

definition first0 :: "'a list \<Rightarrow> panic + 'a" where
  "first0 xs = (case xs of [] \<Rightarrow> Inl IndexOutOfRange | x # rest \<Rightarrow> Inr x)"

definition Times :: "column \<Rightarrow> panic + Time list" where
  "Times c = (case c of TimeCol xs \<Rightarrow> Inr xs | _ \<Rightarrow> Inl WrongColumnType)"

definition Strings :: "column \<Rightarrow> panic + string list" where
  "Strings c = (case c of StringCol xs \<Rightarrow> Inr xs | _ \<Rightarrow> Inl WrongColumnType)"

definition bindP :: "panic + 'a \<Rightarrow> ('a \<Rightarrow> panic + 'b) \<Rightarrow> panic + 'b" where
  "bindP r f = (case r of Inl p \<Rightarrow> Inl p | Inr x \<Rightarrow> f x)"

subsection \<open>Binary search\<close>

text \<open>
  \<^verbatim>\<open>sort.Search(n, f)\<close> of the Go library, and \<^verbatim>\<open>sort.SearchStrings(a, x)\<close>, which is
  \<^verbatim>\<open>Search(len(a), func(i) { return a[i] >= x })\<close>: on a sorted slice the least index
  whose element is at least \<open>x\<close>, and \<open>length a\<close> when there is none.
\<close>

function Search_loop :: "(nat \<Rightarrow> bool) \<Rightarrow> nat \<Rightarrow> nat \<Rightarrow> nat" where
  "Search_loop f i j =
     (if i < j
      then (if \<not> f ((i + j) div 2) then Search_loop f ((i + j) div 2 + 1) j
            else Search_loop f i ((i + j) div 2))
      else i)"
  by pat_completeness auto
termination
  by (relation "measure (\<lambda>(f, i, j). j - i)") auto

definition Search :: "nat \<Rightarrow> (nat \<Rightarrow> bool) \<Rightarrow> nat" where
  "Search n f = Search_loop f 0 n"

definition SearchStrings :: "string list \<Rightarrow> string \<Rightarrow> nat" where
  "SearchStrings a x = Search (length a) (\<lambda>i. x \<le> a ! i)"

subsection \<open>The metric of a column reader\<close>

text \<open>
  The metric that \<^verbatim>\<open>Process\<close> fills and hands to the encoder. A tag is a key with a
  string, a field a key with a value of one of the six column types.
\<close>

datatype fieldval =
    FloatV float64
  | IntV "64 word"
  | UIntV "64 word"
  | StringV string
  | TimeV Time
  | BoolV bool

record Tag =
  TagKey :: string
  TagValue :: string

record Field =
  FieldKey :: string
  FieldValue :: fieldval

record httpOutputMetric =
  m_tags :: "Tag list"
  m_fields :: "Field list"
  m_name :: string
  m_t :: Time

definition truncateTagsAndFields :: "httpOutputMetric \<Rightarrow> httpOutputMetric" where
  "truncateTagsAndFields m = m\<lparr>m_fields := [], m_tags := []\<rparr>"

definition addField :: "httpOutputMetric \<Rightarrow> string \<Rightarrow> fieldval \<Rightarrow> httpOutputMetric" where
  "addField m k v = m\<lparr>m_fields := m_fields m @ [\<lparr>FieldKey = k, FieldValue = v\<rparr>]\<rparr>"

text \<open>
  One column of a column reader, the \<^verbatim>\<open>switch\<close> in the callback of \<^verbatim>\<open>Process\<close>: the
  time column sets the time; else a label that \<^verbatim>\<open>SearchStrings\<close> places before the end
  of \<^verbatim>\<open>ValueColumns\<close> adds a field, by the column's type (for an invalid type it adds nothing
  and assigns to \<^verbatim>\<open>err\<close>, which \<open>colsAssign\<close> below accounts for); else a label
  that \<^verbatim>\<open>SearchStrings\<close> places before the end of \<^verbatim>\<open>TagColumns\<close> adds a tag. Every
  value is the element \<^verbatim>\<open>[0]\<close> of the column's slice.
\<close>

definition doCol ::
  "ToHTTPOpSpec \<Rightarrow> string \<times> column \<Rightarrow> httpOutputMetric \<Rightarrow> panic + httpOutputMetric" where
  "doCol sp lc m =
     (case lc of (label, c) \<Rightarrow>
        if label = TimeColumn sp then
          bindP (Times c) (\<lambda>xs. bindP (first0 xs) (\<lambda>x. Inr (m\<lparr>m_t := x\<rparr>)))
        else if SearchStrings (ValueColumns sp) label < length (ValueColumns sp) then
          (case c of
             FloatCol xs \<Rightarrow> bindP (first0 xs) (\<lambda>x. Inr (addField m label (FloatV x)))
           | IntCol xs \<Rightarrow> bindP (first0 xs) (\<lambda>x. Inr (addField m label (IntV x)))
           | UIntCol xs \<Rightarrow> bindP (first0 xs) (\<lambda>x. Inr (addField m label (UIntV x)))
           | StringCol xs \<Rightarrow> bindP (first0 xs) (\<lambda>x. Inr (addField m label (StringV x)))
           | TimeCol xs \<Rightarrow> bindP (first0 xs) (\<lambda>x. Inr (addField m label (TimeV x)))
           | BoolCol xs \<Rightarrow> bindP (first0 xs) (\<lambda>x. Inr (addField m label (BoolV x)))
           | InvalidCol \<Rightarrow> Inr m)
        else if SearchStrings (TagColumns sp) label < length (TagColumns sp) then
          bindP (Strings c) (\<lambda>xs. bindP (first0 xs)
            (\<lambda>x. Inr (m\<lparr>m_tags := m_tags m @ [\<lparr>TagKey = label, TagValue = x\<rparr>]\<rparr>)))
        else Inr m)"

fun colsLoop ::
  "ToHTTPOpSpec \<Rightarrow> ColReader \<Rightarrow> httpOutputMetric \<Rightarrow> panic + httpOutputMetric" where
  "colsLoop sp [] m = Inr m"
| "colsLoop sp (lc # rest) m = bindP (doCol sp lc m) (colsLoop sp rest)"

text \<open>
  The callback runs once for each column reader: it empties the tags and fields of the one
  metric \<^verbatim>\<open>m\<close>, runs the columns, and hands \<^verbatim>\<open>m\<close> to \<^verbatim>\<open>e.Encode\<close>. The result is
  the list of the metrics handed to the encoder, or the panic that stops it.
\<close>

fun readersLoop ::
  "ToHTTPOpSpec \<Rightarrow> ColReader list \<Rightarrow> httpOutputMetric \<Rightarrow> panic + httpOutputMetric list" where
  "readersLoop sp [] m = Inr []"
| "readersLoop sp (er # ers) m =
     bindP (colsLoop sp er (truncateTagsAndFields m))
       (\<lambda>m'. bindP (readersLoop sp ers m') (\<lambda>ms. Inr (m' # ms)))"

definition metrics :: "ToHTTPOpSpec \<Rightarrow> Block \<Rightarrow> panic + httpOutputMetric list" where
  "metrics sp b =
     readersLoop sp (BlockReaders b) \<lparr>m_tags = [], m_fields = [], m_name = Name sp, m_t = 0\<rparr>"

subsection \<open>The request\<close>

text \<open>
  The world outside \<^verbatim>\<open>Process\<close> is a parameter: the line-protocol encoder (the bytes
  an \<^verbatim>\<open>Encode\<close> writes and its error, which \<^verbatim>\<open>Process\<close> prints and drops), the check
  \<^verbatim>\<open>http.NewRequest\<close> makes of the method and the address, the HTTP client, chosen
  by \<^verbatim>\<open>NoKeepAlive\<close>, which answers a request with an error or a response, and the
  schedule of the encoding goroutine against \<^verbatim>\<open>Process\<close> (the two flags, explained
  below). A request carries the body the encoder wrote and the deadline of its context, if
  one was set.
\<close>

record Request =
  ReqMethod :: string
  ReqURL :: string
  ReqBody :: string
  ReqTimeout :: "Duration option"

record Response =
  StatusCode :: int
  RespBody :: string

record HTTPEnv =
  Encode :: "httpOutputMetric \<Rightarrow> string \<times> error option"
  NewRequestErr :: "string \<Rightarrow> string \<Rightarrow> error option"
  ClientDo :: "bool \<Rightarrow> Request \<Rightarrow> error + Response"
  ErrSeenAtRequest :: bool
  ErrSeenAtResponse :: bool

text \<open>The map \<^verbatim>\<open>labels\<close> from a column's label to its index and type; a later column wins.\<close>

definition labels :: "ColMeta list \<Rightarrow> string \<Rightarrow> (nat \<times> DataType) option" where
  "labels cols =
     foldl (\<lambda>m (i, col). m(Label col \<mapsto> (i, Type col))) Map.empty (enumerate 0 cols)"

definition body :: "HTTPEnv \<Rightarrow> httpOutputMetric list \<Rightarrow> string" where
  "body env ms = concat (map (\<lambda>m. fst (Encode env m)) ms)"

text \<open>
  The request as sent: \<^verbatim>\<open>if t.spec.Spec.Timeout <= 0\<close> gives the request a context
  with that timeout; a positive timeout sets none.
\<close>

definition buildRequest :: "HTTPEnv \<Rightarrow> ToHTTPOpSpec \<Rightarrow> httpOutputMetric list \<Rightarrow> Request" where
  "buildRequest env sp ms =
     \<lparr>ReqMethod = Method sp, ReqURL = Addr sp, ReqBody = body env ms,
      ReqTimeout = (if Timeout sp \<le>s 0 then Some (Timeout sp) else None)\<rparr>"

subsection \<open>The encoding goroutine beside Process\<close>

text \<open>
  The encoding runs in a goroutine that \<^verbatim>\<open>Process\<close> starts after the check of the time
  column and before it builds the request. Three things of it reach \<^verbatim>\<open>Process\<close>.

  A panic of the encoding ends the program, whether or not \<^verbatim>\<open>Process\<close> has returned
  by then.

  For a value column whose type is none of the six, the callback assigns the error
  \<^verbatim>\<open>invalid type\<close> to \<^verbatim>\<open>err\<close>. That is the variable \<^verbatim>\<open>err\<close> of \<^verbatim>\<open>Process\<close>:
  the callback declares an \<^verbatim>\<open>err\<close> of its own only further down, at \<^verbatim>\<open>Encode\<close>. The
  assignment is not synchronised with \<^verbatim>\<open>Process\<close>, which assigns \<^verbatim>\<open>err\<close> from
  \<^verbatim>\<open>http.NewRequest\<close> and from the client's \<^verbatim>\<open>Do\<close> and tests it right after each.
  Whether an assignment of the goroutine lands between one of these two assignments and
  its test is the choice of the schedule: \<open>ErrSeenAtRequest\<close> for the test after
  \<^verbatim>\<open>http.NewRequest\<close>, \<open>ErrSeenAtResponse\<close> for the test after \<^verbatim>\<open>Do\<close>.

  The encoder writes into a pipe, and a write into a pipe waits until the other end is
  read or closed. The client reads or closes the body of every request it is given, so
  once \<^verbatim>\<open>Do\<close> is called the goroutine runs through all the column readers. Before that,
  and for ever when \<^verbatim>\<open>Process\<close> returns without calling \<^verbatim>\<open>Do\<close>, nobody reads the
  pipe, and the goroutine stops in the first \<^verbatim>\<open>Encode\<close> that writes bytes.
\<close>

definition invalidValueCol :: "ToHTTPOpSpec \<Rightarrow> string \<times> column \<Rightarrow> bool" where
  "invalidValueCol sp lc =
     (case lc of (label, c) \<Rightarrow>
        label \<noteq> TimeColumn sp
        \<and> SearchStrings (ValueColumns sp) label < length (ValueColumns sp)
        \<and> c = InvalidCol)"

text \<open>
  Whether the column loop over one column reader assigns to \<^verbatim>\<open>err\<close> before it ends or
  panics, and whether the goroutine, run through all the column readers, does.
\<close>

fun colsAssign :: "ToHTTPOpSpec \<Rightarrow> ColReader \<Rightarrow> httpOutputMetric \<Rightarrow> bool" where
  "colsAssign sp [] m = False"
| "colsAssign sp (lc # rest) m =
     (invalidValueCol sp lc
      \<or> (case doCol sp lc m of Inl p \<Rightarrow> False | Inr m' \<Rightarrow> colsAssign sp rest m'))"

fun readersAssign :: "ToHTTPOpSpec \<Rightarrow> ColReader list \<Rightarrow> httpOutputMetric \<Rightarrow> bool" where
  "readersAssign sp [] m = False"
| "readersAssign sp (er # ers) m =
     (colsAssign sp er (truncateTagsAndFields m)
      \<or> (case colsLoop sp er (truncateTagsAndFields m) of
            Inl p \<Rightarrow> False
          | Inr m' \<Rightarrow> readersAssign sp ers m'))"

definition assignsErr :: "ToHTTPOpSpec \<Rightarrow> Block \<Rightarrow> bool" where
  "assignsErr sp b =
     readersAssign sp (BlockReaders b)
       \<lparr>m_tags = [], m_fields = [], m_name = Name sp, m_t = 0\<rparr>"

text \<open>
  The goroutine while nobody reads the pipe: the panic it runs into, if any, and whether
  it assigns to \<^verbatim>\<open>err\<close>, up to the first \<^verbatim>\<open>Encode\<close> that writes bytes.
\<close>

fun readersUnread ::
  "HTTPEnv \<Rightarrow> ToHTTPOpSpec \<Rightarrow> ColReader list \<Rightarrow> httpOutputMetric \<Rightarrow> panic option \<times> bool" where
  "readersUnread env sp [] m = (None, False)"
| "readersUnread env sp (er # ers) m =
     (case colsLoop sp er (truncateTagsAndFields m) of
        Inl p \<Rightarrow> (Some p, colsAssign sp er (truncateTagsAndFields m))
      | Inr m' \<Rightarrow>
          if fst (Encode env m') \<noteq> []
          then (None, colsAssign sp er (truncateTagsAndFields m))
          else (case readersUnread env sp ers m' of
                  (p, a) \<Rightarrow> (p, colsAssign sp er (truncateTagsAndFields m) \<or> a)))"

definition unread :: "HTTPEnv \<Rightarrow> ToHTTPOpSpec \<Rightarrow> Block \<Rightarrow> panic option \<times> bool" where
  "unread env sp b =
     readersUnread env sp (BlockReaders b)
       \<lparr>m_tags = [], m_fields = [], m_name = Name sp, m_t = 0\<rparr>"

text \<open>
  The value of \<^verbatim>\<open>err\<close> at a test: the error just assigned by \<^verbatim>\<open>Process\<close>, or
  \<^verbatim>\<open>invalid type\<close> when an assignment of the goroutine has landed in between.
\<close>

definition seen :: "bool \<Rightarrow> error option \<Rightarrow> error option" where
  "seen landed err = (if landed then Some (Err ''invalid type'') else err)"

subsection \<open>Process\<close>

text \<open>
  \<^verbatim>\<open>Process\<close> returns an error or \<^verbatim>\<open>nil\<close> (\<open>Return None\<close>), or the program ends by
  a panic of the encoding (\<open>Crash\<close>). In the order of the code: the time column is
  looked up and its type checked; the goroutine is started; the request is built and
  \<^verbatim>\<open>err\<close> tested, and with an error \<^verbatim>\<open>Process\<close> returns it, the pipe unread; the
  client is called and \<^verbatim>\<open>err\<close> tested, and with an error \<^verbatim>\<open>Process\<close> returns it;
  else it returns the value of \<^verbatim>\<open>req.Body.Close()\<close>, the close of the reading end of
  the pipe, which is always \<^verbatim>\<open>nil\<close>.
\<close>

datatype outcome = Crash panic | Return "error option"

definition Process :: "HTTPEnv \<Rightarrow> ToHTTPOpSpec \<Rightarrow> Block \<Rightarrow> outcome" where
  "Process env sp b =
     (case labels (BlockCols b) (TimeColumn sp) of
        None \<Rightarrow> Return (Some (Err ''Could not get time column''))
      | Some (i, ty) \<Rightarrow>
          if ty \<noteq> TTime then Return (Some (ErrColumnType (TimeColumn sp) ty))
          else (case seen (ErrSeenAtRequest env \<and> snd (unread env sp b))
                       (NewRequestErr env (Method sp) (Addr sp)) of
                  Some e \<Rightarrow>
                    (case fst (unread env sp b) of
                       Some p \<Rightarrow> Crash p
                     | None \<Rightarrow> Return (Some e))
                | None \<Rightarrow>
                    (case metrics sp b of
                       Inl p \<Rightarrow> Crash p
                     | Inr ms \<Rightarrow>
                         Return (seen (ErrSeenAtResponse env \<and> assignsErr sp b)
                           (case ClientDo env (NoKeepAlive sp) (buildRequest env sp ms) of
                              Inl e \<Rightarrow> Some e
                            | Inr resp \<Rightarrow> None)))))"

section \<open>Concrete inputs\<close>

text \<open>
  A source at time 5 with a window of period 1 every 1, bounds up to 10 and two
  subscribers; the same past its bounds; a reader that always fails, one that returns no
  block and one that returns a block until the read that stops at 7 fails; and a source
  whose window advances by \<open>2^62\<close> under bounds that end at the largest time.
\<close>

definition ex_src :: "unit storageSource" where
  "ex_src = \<lparr>idS = 0, reader = (), window = \<lparr>Every = 1, Period = 1\<rparr>,
      bounds = \<lparr>Start = 0, Stop = 10\<rparr>, ts = [0, 1], currentTime = 5\<rparr>"

definition late_src :: "unit storageSource" where
  "late_src = ex_src\<lparr>currentTime := 11\<rparr>"

definition failing_reader :: "(unit, nat) StorageReader" where
  "failing_reader r start stop = (Inl (Err ''read failed''), r)"

definition empty_reader :: "(unit, nat) StorageReader" where
  "empty_reader r start stop = (Inr [], r)"

definition stop7_reader :: "(unit, nat) StorageReader" where
  "stop7_reader r start stop =
     (if stop = 7 then (Inl (Err ''read failed''), r) else (Inr [3], r))"

definition wrap_src :: "unit storageSource" where
  "wrap_src = \<lparr>idS = 0, reader = (), window = \<lparr>Every = 4611686018427387904, Period = 0\<rparr>,
      bounds = \<lparr>Start = 0, Stop = 9223372036854775807\<rparr>, ts = [0],
      currentTime = 4611686018427387904\<rparr>"

text \<open>An accumulator as an earlier aggregation has left it.\<close>

definition stale_agg :: StddevAgg where
  "stale_agg = \<lparr>n_agg = Fin 4, m2_agg = Fin 5, mean_agg = Fin 2\<rparr>"

text \<open>
  Arguments of a \<^verbatim>\<open>toHTTP\<close> call with an address, a name and the given timeout, if any;
  the same without a name; arguments that give one tag column and two value columns; an
  administration that finds the parent; and \<^verbatim>\<open>strings.ToUpper\<close> as it is on strings of
  ASCII characters.
\<close>

definition parent_found :: "Arguments \<Rightarrow> error option" where
  "parent_found args = None"

definition upper_char :: "char \<Rightarrow> char" where
  "upper_char c =
     (case map_of (zip ''abcdefghijklmnopqrstuvwxyz'' ''ABCDEFGHIJKLMNOPQRSTUVWXYZ'') c of
        None \<Rightarrow> c | Some u \<Rightarrow> u)"

definition ascii_ToUpper :: "string \<Rightarrow> string" where
  "ascii_ToUpper s = map upper_char s"

definition timeout_args :: "Duration option \<Rightarrow> Arguments" where
  "timeout_args tmo =
     \<lparr>GetRequiredString = (\<lambda>k. if k = ''addr'' then Inr ''http://h/w''
                               else if k = ''name'' then Inr ''m''
                               else Inl (Err ''missing required keyword argument'')),
      GetString = (\<lambda>k. Inr None),
      GetDuration = (\<lambda>k. if k = ''timeout'' then Inr tmo else Inr None),
      GetArray = (\<lambda>k. Inr None)\<rparr>"

definition nameless_args :: "Duration option \<Rightarrow> Arguments" where
  "nameless_args tmo =
     (timeout_args tmo)\<lparr>GetRequiredString :=
        (\<lambda>k. if k = ''addr'' then Inr ''http://h/w''
              else Inl (Err ''missing required keyword argument''))\<rparr>"

definition columns_args :: Arguments where
  "columns_args =
     (timeout_args None)\<lparr>GetArray :=
        (\<lambda>k. if k = ''tag_columns'' then Inr (Some [''t1''])
              else if k = ''value_columns'' then Inr (Some [''_value'', ''v2''])
              else Inr None)\<rparr>"

text \<open>
  A block of two rows that its \<^verbatim>\<open>Do\<close> passes on in one column reader, a spec for it, and
  a world whose encoder writes the name of the metric and a newline and whose server
  answers every request with status 500, the goroutine's assignments never landing before a
  test; the same world with a server that answers 404; and the same with a client that
  fails.
\<close>

definition ex_block :: Block where
  "ex_block =
     \<lparr>BlockCols = [\<lparr>Label = ''_time'', Type = TTime\<rparr>, \<lparr>Label = ''t1'', Type = TString\<rparr>,
                   \<lparr>Label = ''_value'', Type = TFloat\<rparr>],
      BlockReaders = [[(''_time'', TimeCol [1000000000, 2000000000]),
                       (''t1'', StringCol [''a'', ''b'']),
                       (''_value'', FloatCol [Fin 1.5, Fin 2.5])]]\<rparr>"

definition ex_spec :: ToHTTPOpSpec where
  "ex_spec =
     \<lparr>Addr = ''http://h/w'', Method = ''POST'', Name = ''m'', Headers = defaultHeaders,
      URLParams = Map.empty, Timeout = 1000000000, NoKeepAlive = False, TimeColumn = ''_time'',
      TagColumns = [''t1''], ValueColumns = [''_value'']\<rparr>"

definition ex_metric :: httpOutputMetric where
  "ex_metric =
     \<lparr>m_tags = [\<lparr>TagKey = ''t1'', TagValue = ''a''\<rparr>],
      m_fields = [\<lparr>FieldKey = ''_value'', FieldValue = FloatV (Fin 1.5)\<rparr>],
      m_name = ''m'', m_t = 1000000000\<rparr>"

definition status500_env :: HTTPEnv where
  "status500_env =
     \<lparr>Encode = (\<lambda>m. (m_name m @ [CHR 0x0A], None)),
      NewRequestErr = (\<lambda>m u. None),
      ClientDo = (\<lambda>k r. Inr \<lparr>StatusCode = 500, RespBody = ''internal error''\<rparr>),
      ErrSeenAtRequest = False, ErrSeenAtResponse = False\<rparr>"

definition status404_env :: HTTPEnv where
  "status404_env =
     status500_env\<lparr>ClientDo := (\<lambda>k r. Inr \<lparr>StatusCode = 404, RespBody = ''not found''\<rparr>)\<rparr>"

text \<open>
  A block with a value column of invalid type, and a world where the goroutine's assignment
  lands before the test that follows the client's answer.
\<close>

definition invalid_block :: Block where
  "invalid_block =
     \<lparr>BlockCols = [\<lparr>Label = ''_time'', Type = TTime\<rparr>, \<lparr>Label = ''_value'', Type = TInvalid\<rparr>],
      BlockReaders = [[(''_time'', TimeCol [1000000000]), (''_value'', InvalidCol)]]\<rparr>"

definition racy_env :: HTTPEnv where
  "racy_env = status500_env\<lparr>ErrSeenAtResponse := True\<rparr>"

definition refused_env :: HTTPEnv where
  "refused_env = status500_env\<lparr>ClientDo := (\<lambda>k r. Inl (Err ''connection refused''))\<rparr>"

text \<open>
  A decoder that takes the bytes for the address, and a parser that knows three addresses.
\<close>

definition addr_unmarshal :: "string \<Rightarrow> ToHTTPOpSpec \<Rightarrow> error option \<times> ToHTTPOpSpec" where
  "addr_unmarshal b sp = (None, sp\<lparr>Addr := b\<rparr>)"

definition three_uris :: "string \<Rightarrow> error + URL" where
  "three_uris a =
     (if a = ''http://h/w'' then Inr \<lparr>Scheme = ''http''\<rparr>
      else if a = ''ftp://h/w'' then Inr \<lparr>Scheme = ''ftp''\<rparr>
      else Inl (Err ''invalid URI for request''))"

chapter \<open>Properties\<close>

section \<open>The timeout of toHTTP\<close>

lemma ReadArgs_timeout:
  "ReadArgs ToUpper args sp = Inr sp' \<Longrightarrow>
     \<exists>tmo. GetDuration args ''timeout'' = Inr tmo
       \<and> Timeout sp' = (case tmo of None \<Rightarrow> DefaultToHTTPTimeout | Some d \<Rightarrow> d)"
  by (auto simp: ReadArgs_def bindE_def Let_def split: sum.splits)

lemma ReadArgs_error_not_from_timeout:
  "GetDuration args ''timeout'' = Inr tmo \<Longrightarrow> ReadArgs ToUpper args sp = Inl e \<Longrightarrow>
     ReadArgs ToUpper (args\<lparr>GetDuration := (GetDuration args)(''timeout'' := Inr tmo')\<rparr>) sp = Inl e"
  by (auto simp: ReadArgs_def bindE_def Let_def split: sum.splits)

lemma ReadArgs_timeout_args:
  "ReadArgs ascii_ToUpper (timeout_args tmo) newToHTTPOpSpec =
     Inr (newToHTTPOpSpec\<lparr>Addr := ''http://h/w'', Name := ''m'', Method := ''POST'',
        Timeout := (case tmo of None \<Rightarrow> DefaultToHTTPTimeout | Some d \<Rightarrow> d),
        TimeColumn := ''_time'', TagColumns := [], ValueColumns := [''_value''],
        Headers := defaultHeaders\<rparr>)"
  by (simp add: ReadArgs_def bindE_def timeout_args_def ascii_ToUpper_def upper_char_def
      DefaultTimeColLabel_def DefaultValueColLabel_def)

lemma ReadArgs_nameless_args:
  "ReadArgs ascii_ToUpper (nameless_args tmo) sp = Inl (Err ''missing required keyword argument'')"
  by (simp add: ReadArgs_def bindE_def nameless_args_def timeout_args_def)

text \<open>
  C1, as the code has it: when the \<^verbatim>\<open>timeout\<close> argument is absent, the spec that
  \<^verbatim>\<open>ReadArgs\<close> returns has the timeout of one second (\<open>10^9\<close> nanoseconds). A negative
  timeout is not rejected: the spec returned holds that negative timeout, and when
  \<^verbatim>\<open>ReadArgs\<close> does return an error beside a negative timeout, it returns the same error
  with the timeout taken away, so the error is another argument's.
\<close>

theorem C1_timeout_absent_default_negative_kept:
  "(GetDuration args ''timeout'' = Inr None \<longrightarrow> ReadArgs ToUpper args sp = Inr sp'
      \<longrightarrow> Timeout sp' = 1000000000)
   \<and> (GetDuration args ''timeout'' = Inr (Some d) \<longrightarrow> d <s 0 \<longrightarrow> ReadArgs ToUpper args sp = Inr sp'
      \<longrightarrow> Timeout sp' = d)
   \<and> (GetDuration args ''timeout'' = Inr (Some d) \<longrightarrow> d <s 0 \<longrightarrow> ReadArgs ToUpper args sp = Inl e
      \<longrightarrow> ReadArgs ToUpper (args\<lparr>GetDuration := (GetDuration args)(''timeout'' := Inr None)\<rparr>) sp = Inl e)"
  using ReadArgs_timeout[of ToUpper args sp sp']
    ReadArgs_error_not_from_timeout[of args "Some d" ToUpper sp e None]
  by (auto simp: DefaultToHTTPTimeout_def)

theorem C1_timeout_absent_default_negative_kept_witness:
  "GetDuration (timeout_args None) ''timeout'' = Inr None
   \<and> (case ReadArgs ascii_ToUpper (timeout_args None) newToHTTPOpSpec of
        Inl e \<Rightarrow> None | Inr sp \<Rightarrow> Some (Timeout sp)) = Some 1000000000
   \<and> GetDuration (timeout_args (Some (- 5))) ''timeout'' = Inr (Some (- 5))
   \<and> (- 5 :: Duration) <s 0
   \<and> (case ReadArgs ascii_ToUpper (timeout_args (Some (- 5))) newToHTTPOpSpec of
        Inl e \<Rightarrow> None | Inr sp \<Rightarrow> Some (Timeout sp)) = Some (- 5)
   \<and> GetDuration (nameless_args (Some (- 5))) ''timeout'' = Inr (Some (- 5))
   \<and> ReadArgs ascii_ToUpper (nameless_args (Some (- 5))) newToHTTPOpSpec
       = Inl (Err ''missing required keyword argument'')
   \<and> ReadArgs ascii_ToUpper ((nameless_args (Some (- 5)))\<lparr>GetDuration :=
         (GetDuration (nameless_args (Some (- 5))))(''timeout'' := Inr None)\<rparr>) newToHTTPOpSpec
       = Inl (Err ''missing required keyword argument'')"
proof -
  have neg: "(- 5 :: Duration) <s 0" by (simp add: word_sless_alt)
  have g1: "GetDuration (timeout_args tmo) ''timeout'' = Inr tmo" for tmo
    by (simp add: timeout_args_def)
  have g2: "GetDuration (nameless_args tmo) ''timeout'' = Inr tmo" for tmo
    by (simp add: nameless_args_def timeout_args_def)
  note a = C1_timeout_absent_default_negative_kept
      [where ToUpper = ascii_ToUpper and args = "timeout_args None" and sp = newToHTTPOpSpec
        and sp' = "projr (ReadArgs ascii_ToUpper (timeout_args None) newToHTTPOpSpec)"]
  note b = C1_timeout_absent_default_negative_kept
      [where ToUpper = ascii_ToUpper and args = "timeout_args (Some (- 5))" and d = "- 5" and sp = newToHTTPOpSpec
        and sp' = "projr (ReadArgs ascii_ToUpper (timeout_args (Some (- 5))) newToHTTPOpSpec)"]
  note c = C1_timeout_absent_default_negative_kept
      [where ToUpper = ascii_ToUpper and args = "nameless_args (Some (- 5))" and d = "- 5" and sp = newToHTTPOpSpec
        and e = "Err ''missing required keyword argument''"]
  from a b c neg show ?thesis
    by (simp add: g1 g2 ReadArgs_timeout_args ReadArgs_nameless_args)
qed

text \<open>
  C1 as stated fails: a call with the timeout of minus one second gives a spec with that
  timeout and no error, and a call with the timeout 0 gives a spec whose timeout is 0, not
  the default.
\<close>

theorem C1_negative_and_zero_timeout_counterexample:
  "(case createToHTTPOpSpec ascii_ToUpper parent_found (timeout_args (Some (- 1000000000))) of
      Inl e \<Rightarrow> None | Inr sp \<Rightarrow> Some (Timeout sp)) = Some (- 1000000000)
   \<and> (- 1000000000 :: Duration) <s 0
   \<and> (case createToHTTPOpSpec ascii_ToUpper parent_found (timeout_args (Some 0)) of
      Inl e \<Rightarrow> None | Inr sp \<Rightarrow> Some (Timeout sp)) = Some 0
   \<and> (0 :: Duration) \<noteq> DefaultToHTTPTimeout"
  by (simp add: createToHTTPOpSpec_def parent_found_def ReadArgs_timeout_args word_sless_alt
      DefaultToHTTPTimeout_def)

section \<open>The storage source\<close>

subsection \<open>What one call of Next leaves unchanged and what it emits\<close>

lemma Next_frame:
  "Next rd s = (r, evs, s') \<Longrightarrow>
     bounds s' = bounds s \<and> window s' = window s \<and> ts s' = ts s \<and> idS s' = idS s
     \<and> currentTime s' = currentTime s + Every (window s)"
  by (auto simp: Next_def Let_def split: if_splits prod.splits sum.splits)

lemma Next_beyond:
  "Stop (bounds s) <s currentTime s \<Longrightarrow>
     Next rd s = (None, [], s\<lparr>currentTime := currentTime s + Every (window s)\<rparr>)"
  by (simp add: Next_def Let_def)

lemma Next_read_error:
  "\<not> Stop (bounds s) <s currentTime s \<Longrightarrow>
   rd (reader s) (currentTime s - Period (window s)) (currentTime s) = (Inl e, r') \<Longrightarrow>
     Next rd s = (None, [EvRead (currentTime s - Period (window s)) (currentTime s), EvLog e],
                  s\<lparr>currentTime := currentTime s + Every (window s), reader := r'\<rparr>)"
  by (simp add: Next_def Let_def)

lemma Next_read_stops:
  "Next rd s = (r, evs, s') \<Longrightarrow> stop \<in> set (read_stops evs) \<Longrightarrow> stop \<le>s Stop (bounds s)"
  by (auto simp: Next_def Let_def word_sless_alt word_sle_eq not_less
      split: if_splits prod.splits sum.splits)

lemma Next_watermarks: "Next rd s = (r, evs, s') \<Longrightarrow> watermarks t evs = []"
  by (auto simp: Next_def Let_def split: if_splits prod.splits sum.splits)

lemma Next_finishes: "Next rd s = (r, evs, s') \<Longrightarrow> finishes evs = []"
  by (auto simp: Next_def Let_def split: if_splits prod.splits sum.splits)

lemma Next_Some_mark:
  "Next rd s = (Some (blocks, mark), evs, s') \<Longrightarrow>
     mark = currentTime s \<and> mark \<le>s Stop (bounds s)"
  by (auto simp: Next_def Let_def word_sless_alt word_sle_eq not_less
      split: if_splits prod.splits sum.splits)

lemma Next_Some_events:
  "Next rd s = (Some bm, evs, s') \<Longrightarrow> \<exists>start stop. evs = [EvRead start stop]"
  by (auto simp: Next_def Let_def split: if_splits prod.splits sum.splits)

lemma Next_None_log:
  "Next rd s = (None, evs, s') \<Longrightarrow> EvLog e \<in> set evs \<Longrightarrow>
     \<exists>start stop r'. evs = [EvRead start stop, EvLog e]
        \<and> rd (reader s) start stop = (Inl e, r')"
  by (auto simp: Next_def Let_def split: if_splits prod.splits sum.splits)

subsection \<open>The events of a batch\<close>

lemma read_stops_append: "read_stops (xs @ ys) = read_stops xs @ read_stops ys"
  by (induction xs rule: read_stops.induct) auto

lemma watermarks_append: "watermarks t (xs @ ys) = watermarks t xs @ watermarks t ys"
  by (induction t xs rule: watermarks.induct) auto

lemma finishes_append: "finishes (xs @ ys) = finishes xs @ finishes ys"
  by (induction xs rule: finishes.induct) auto

lemma read_stops_batch: "read_stops (batch_events i subs blocks mark) = []"
proof -
  have a: "read_stops (concat (map (\<lambda>t. [EvProcess t i b, EvUpdateProcessingTime t i]) subs)) = []"
    for b :: 'a
    by (induction subs) auto
  have b: "read_stops (concat (map (\<lambda>b. concat (map (\<lambda>t.
      [EvProcess t i b, EvUpdateProcessingTime t i]) subs)) blocks)) = []"
    by (induction blocks) (auto simp: read_stops_append a)
  have c: "read_stops (map (\<lambda>t. EvUpdateWatermark t i mark) subs) = ([] :: Time list)"
    by (induction subs) auto
  show ?thesis by (simp add: batch_events_def read_stops_append b c)
qed

lemma finishes_batch: "finishes (batch_events i subs blocks mark) = []"
proof -
  have a: "finishes (concat (map (\<lambda>t. [EvProcess t i b, EvUpdateProcessingTime t i]) subs)) = []"
    for b :: 'a
    by (induction subs) auto
  have b: "finishes (concat (map (\<lambda>b. concat (map (\<lambda>t.
      [EvProcess t i b, EvUpdateProcessingTime t i]) subs)) blocks)) = []"
    by (induction blocks) (auto simp: finishes_append a)
  have c: "finishes (map (\<lambda>t. EvUpdateWatermark t i mark) subs) = []"
    by (induction subs) auto
  show ?thesis by (simp add: batch_events_def finishes_append b c)
qed

lemma watermarks_batch:
  "watermarks t (batch_events i subs blocks mark)
     = replicate (length (filter (\<lambda>t'. t' = t) subs)) mark"
proof -
  have a: "watermarks t (concat (map (\<lambda>t. [EvProcess t i b, EvUpdateProcessingTime t i]) subs)) = []"
    for b :: 'a
    by (induction subs) auto
  have b: "watermarks t (concat (map (\<lambda>b. concat (map (\<lambda>t.
      [EvProcess t i b, EvUpdateProcessingTime t i]) subs)) blocks)) = []"
    by (induction blocks) (auto simp: watermarks_append a)
  have c: "watermarks t (map (\<lambda>t. EvUpdateWatermark t i mark) subs)
      = replicate (length (filter (\<lambda>t'. t' = t) subs)) mark"
    by (induction subs) auto
  show ?thesis by (simp add: batch_events_def watermarks_append b c)
qed

lemma log_notin_batch: "EvLog e \<notin> set (batch_events i subs blocks mark)"
  by (auto simp: batch_events_def)

lemma watermarks_Finish: "watermarks t (map (\<lambda>t. EvFinish t i e) subs) = []"
  by (induction subs) auto

lemma finishes_Finish: "finishes (map (\<lambda>t. EvFinish t i e) subs) = map (\<lambda>t. (t, e)) subs"
  by (induction subs) auto

subsection \<open>Reads stay within the bounds\<close>

lemma Run_loop_read_stops:
  "stop \<in> set (read_stops (snd (Run_loop rd n s))) \<Longrightarrow> stop \<le>s Stop (bounds s)"
proof (induction n arbitrary: s)
  case 0
  then show ?case by simp
next
  case (Suc n)
  obtain r evs s' where nx: "Next rd s = (r, evs, s')"
    by (cases "Next rd s") auto
  show ?case
  proof (cases r)
    case None
    with Suc.prems nx show ?thesis by (auto dest: Next_read_stops)
  next
    case (Some bm)
    obtain blocks mark where bm: "bm = (blocks, mark)" by (cases bm) auto
    obtain fin rest where rl: "Run_loop rd n s' = (fin, rest)"
      by (cases "Run_loop rd n s'") auto
    from Suc.prems nx Some bm rl
    have "stop \<in> set (read_stops evs) \<or> stop \<in> set (read_stops rest)"
      by (auto simp: read_stops_append read_stops_batch)
    then show ?thesis
    proof
      assume "stop \<in> set (read_stops evs)"
      with nx show ?thesis by (rule Next_read_stops)
    next
      assume "stop \<in> set (read_stops rest)"
      with rl have "stop \<in> set (read_stops (snd (Run_loop rd n s')))" by simp
      then have "stop \<le>s Stop (bounds s')" by (rule Suc.IH)
      with Next_frame[OF nx] show ?thesis by simp
    qed
  qed
qed

text \<open>
  C9: when the stop of the next window lies past the bounds, \<^verbatim>\<open>Next\<close> returns
  \<^verbatim>\<open>ok = false\<close> and issues no read (it only advances the current time); and the stop
  time of every read that a run issues, however long the run, is at most the stop of the
  bounds.
\<close>

theorem C9_reads_within_bounds:
  "(Stop (bounds s) <s currentTime s \<longrightarrow>
      Next rd s = (None, [], s\<lparr>currentTime := currentTime s + Every (window s)\<rparr>))
   \<and> (\<forall>stop \<in> set (read_stops (snd (Run_loop rd n s))). stop \<le>s Stop (bounds s))"
  using Next_beyond[of s rd] Run_loop_read_stops[of _ rd n s] by blast

theorem C9_reads_within_bounds_witness:
  "Stop (bounds late_src) <s currentTime late_src
   \<and> Next empty_reader late_src = (None, [], late_src\<lparr>currentTime := 12\<rparr>)
   \<and> read_stops (snd (Run_loop empty_reader 3 ex_src)) = [5, 6, 7]
   \<and> (5 :: Time) \<le>s Stop (bounds ex_src)
   \<and> (6 :: Time) \<le>s Stop (bounds ex_src)
   \<and> (7 :: Time) \<le>s Stop (bounds ex_src)"
proof -
  have r: "read_stops (snd (Run_loop empty_reader 3 ex_src)) = [5, 6, 7]"
    by (simp add: numeral_3_eq_3 Next_def ex_src_def empty_reader_def word_sless_alt
        batch_events_def)
  have l: "Stop (bounds late_src) <s currentTime late_src"
    by (simp add: late_src_def ex_src_def word_sless_alt)
  have c: "currentTime late_src + Every (window late_src) = 12"
    by (simp add: late_src_def ex_src_def)
  from C9_reads_within_bounds[of late_src empty_reader 0]
    C9_reads_within_bounds[of ex_src empty_reader 3] l
  show ?thesis by (simp add: r c)
qed

subsection \<open>Watermarks\<close>

lemma sint_advance:
  fixes c e b :: "64 word"
  assumes "0 \<le> sint e" "sint b + sint e < 2 ^ 63" "sint c \<le> sint b"
  shows "sint (c + e) = sint c + sint e"
proof -
  have lo: "- (2 ^ 63) \<le> sint c" using sint_ge[of c] by simp
  have "sint (c + e) = signed_take_bit 63 (sint c + sint e)"
    by (simp add: sint_word_ariths)
  also have "\<dots> = sint c + sint e"
    using assms lo by (intro signed_take_bit_int_eq_self) auto
  finally show ?thesis .
qed

lemma Run_loop_watermarks:
  assumes e: "0 \<le> sint (Every (window s))"
    and b: "sint (Stop (bounds s)) + sint (Every (window s)) < 2 ^ 63"
  shows "sorted (map sint (watermarks t (snd (Run_loop rd n s))))
       \<and> (\<forall>m \<in> set (watermarks t (snd (Run_loop rd n s))). sint (currentTime s) \<le> sint m)"
  using e b
proof (induction n arbitrary: s)
  case 0
  then show ?case by simp
next
  case (Suc n)
  obtain r evs s' where nx: "Next rd s = (r, evs, s')"
    by (cases "Next rd s") auto
  note fr = Next_frame[OF nx]
  show ?case
  proof (cases r)
    case None
    with nx show ?thesis by (simp add: Next_watermarks)
  next
    case (Some bm)
    obtain blocks mark where bm: "bm = (blocks, mark)" by (cases bm) auto
    obtain fin rest where rl: "Run_loop rd n s' = (fin, rest)"
      by (cases "Run_loop rd n s'") auto
    from nx Some bm have mk: "mark = currentTime s" "mark \<le>s Stop (bounds s)"
      using Next_Some_mark by blast+
    then have le: "sint (currentTime s) \<le> sint (Stop (bounds s))"
      by (simp add: word_sle_eq)
    have adv: "sint (currentTime s') = sint (currentTime s) + sint (Every (window s))"
      using fr sint_advance[OF Suc.prems(1) Suc.prems(2) le] by simp
    have ih: "sorted (map sint (watermarks t rest))
       \<and> (\<forall>m \<in> set (watermarks t rest). sint (currentTime s') \<le> sint m)"
      using Suc.IH[of s'] Suc.prems fr rl by simp
    have w: "watermarks t (snd (Run_loop rd (Suc n) s))
        = replicate (length (filter (\<lambda>t'. t' = t) (ts s'))) mark @ watermarks t rest"
      using nx Some bm rl by (simp add: watermarks_append watermarks_batch Next_watermarks)
    from ih adv Suc.prems(1) have ge: "\<forall>m \<in> set (watermarks t rest). sint mark \<le> sint m"
      using mk(1) by fastforce
    show ?thesis
      unfolding w using ih ge mk(1) by (auto simp: sorted_append)
  qed
qed

text \<open>
  C8, with the condition that the code needs: when \<open>Every\<close> is not negative and the stop
  of the bounds plus \<open>Every\<close> stays below \<open>2^63\<close> (so that advancing the current time
  never wraps around), the marks that a subscriber receives through
  \<^verbatim>\<open>UpdateWatermark\<close> are non-decreasing, in every run and in every part of a run that
  does not end.
\<close>

theorem C8_watermarks_nondecreasing_without_wraparound:
  assumes "0 \<le>s Every (window s)"
    and "sint (Stop (bounds s)) + sint (Every (window s)) < 2 ^ 63"
  shows "sorted (map sint (watermarks t (snd (Run_loop rd n s))))
       \<and> (\<forall>evs. Run rd n s = Some evs \<longrightarrow> sorted (map sint (watermarks t evs)))"
proof -
  from assms(1) have e: "0 \<le> sint (Every (window s))" by (simp add: word_sle_eq)
  have l: "sorted (map sint (watermarks t (snd (Run_loop rd n s))))"
    using Run_loop_watermarks[OF e assms(2)] by blast
  have "sorted (map sint (watermarks t evs))" if "Run rd n s = Some evs" for evs
  proof -
    from that have "watermarks t evs = watermarks t (snd (Run_loop rd n s))"
      by (auto simp: Run_def watermarks_append watermarks_Finish
          split: prod.splits bool.splits)
    with l show ?thesis by simp
  qed
  with l show ?thesis by blast
qed

theorem C8_watermarks_nondecreasing_without_wraparound_witness:
  "0 \<le>s Every (window ex_src)
   \<and> sint (Stop (bounds ex_src)) + sint (Every (window ex_src)) < 2 ^ 63
   \<and> watermarks 1 (snd (Run_loop empty_reader 3 ex_src)) = [5, 6, 7]
   \<and> sorted (map sint (watermarks 1 (snd (Run_loop empty_reader 3 ex_src))))
   \<and> watermarks 1 (the (Run empty_reader 7 ex_src)) = [5, 6, 7, 8, 9, 10]
   \<and> sorted (map sint (watermarks 1 (the (Run empty_reader 7 ex_src))))"
proof -
  have a: "0 \<le>s Every (window ex_src)"
    by (simp add: ex_src_def word_sle_eq)
  have b: "sint (Stop (bounds ex_src)) + sint (Every (window ex_src)) < 2 ^ 63"
    by (simp add: ex_src_def)
  have w: "watermarks 1 (snd (Run_loop empty_reader 3 ex_src)) = [5, 6, 7]"
    by (simp add: numeral_3_eq_3 Next_def ex_src_def empty_reader_def word_sless_alt
        batch_events_def)
  have r: "Run_loop empty_reader 7 ex_src =
      (True, [EvRead 4 5, EvUpdateWatermark 0 0 5, EvUpdateWatermark 1 0 5,
              EvRead 5 6, EvUpdateWatermark 0 0 6, EvUpdateWatermark 1 0 6,
              EvRead 6 7, EvUpdateWatermark 0 0 7, EvUpdateWatermark 1 0 7,
              EvRead 7 8, EvUpdateWatermark 0 0 8, EvUpdateWatermark 1 0 8,
              EvRead 8 9, EvUpdateWatermark 0 0 9, EvUpdateWatermark 1 0 9,
              EvRead 9 10, EvUpdateWatermark 0 0 10, EvUpdateWatermark 1 0 10])"
    by (simp add: eval_nat_numeral Next_def ex_src_def empty_reader_def word_sless_alt
        batch_events_def)
  have s: "Run empty_reader 7 ex_src = Some (snd (Run_loop empty_reader 7 ex_src)
      @ map (\<lambda>t. EvFinish t (idS ex_src) None) (ts ex_src))"
    by (simp add: Run_def r)
  have v: "watermarks 1 (the (Run empty_reader 7 ex_src)) = [5, 6, 7, 8, 9, 10]"
    unfolding s r by (simp add: ex_src_def)
  have c1: "sorted (map sint (watermarks 1 (snd (Run_loop empty_reader 3 ex_src))))"
    using C8_watermarks_nondecreasing_without_wraparound[OF a b, of 1 empty_reader 3]
    by blast
  have c2: "sorted (map sint (watermarks 1 (the (Run empty_reader 7 ex_src))))"
    using C8_watermarks_nondecreasing_without_wraparound[OF a b, of 1 empty_reader 7] s
    by (metis option.sel)
  from a b w v c1 c2 show ?thesis by blast
qed

text \<open>
  C8 as stated fails: with \<open>Every = 2^62\<close>, which is not negative, a current time of
  \<open>2^62\<close> and bounds that stop at \<open>2^63 - 1\<close>, the second batch stops at the wrapped
  time \<open>- 2^63\<close>, still within the bounds, and the subscriber receives the mark
  \<open>2^62\<close> and then the smaller mark \<open>- 2^63\<close>.
\<close>

theorem C8_wraparound_counterexample:
  "0 \<le>s Every (window wrap_src)
   \<and> watermarks 0 (snd (Run_loop empty_reader 2 wrap_src))
       = [4611686018427387904, 9223372036854775808]
   \<and> map sint (watermarks 0 (snd (Run_loop empty_reader 2 wrap_src)))
       = [4611686018427387904, - 9223372036854775808]
   \<and> \<not> sorted (map sint (watermarks 0 (snd (Run_loop empty_reader 2 wrap_src))))"
proof -
  have w: "watermarks 0 (snd (Run_loop empty_reader 2 wrap_src))
      = [4611686018427387904, 9223372036854775808]"
    by (simp add: numeral_2_eq_2 Next_def wrap_src_def empty_reader_def word_sless_alt
        batch_events_def)
  show ?thesis unfolding w by (simp add: wrap_src_def word_sle_eq)
qed

subsection \<open>A read that fails\<close>

lemma Run_loop_finishes: "finishes (snd (Run_loop rd n s)) = []"
proof (induction n arbitrary: s)
  case 0
  then show ?case by simp
next
  case (Suc n)
  obtain r evs s' where nx: "Next rd s = (r, evs, s')"
    by (cases "Next rd s") auto
  show ?case
  proof (cases r)
    case None
    with nx show ?thesis by (simp add: Next_finishes)
  next
    case (Some bm)
    obtain blocks mark where bm: "bm = (blocks, mark)" by (cases bm) auto
    obtain fin rest where rl: "Run_loop rd n s' = (fin, rest)"
      by (cases "Run_loop rd n s'") auto
    from Suc.IH[of s'] rl have "finishes rest = []" by simp
    with nx Some bm rl show ?thesis
      by (simp add: finishes_append finishes_batch Next_finishes)
  qed
qed

lemma Run_loop_log:
  "Run_loop rd n s = (fin, evs) \<Longrightarrow> EvLog e \<in> set evs \<Longrightarrow>
     fin \<and> (\<exists>pre start stop r r'. evs = pre @ [EvRead start stop, EvLog e]
              \<and> rd r start stop = (Inl e, r'))"
proof (induction n arbitrary: s fin evs)
  case 0
  then show ?case by simp
next
  case (Suc n)
  obtain r evs0 s' where nx: "Next rd s = (r, evs0, s')"
    by (cases "Next rd s") auto
  show ?case
  proof (cases r)
    case None
    with Suc.prems nx have "fin" "evs = evs0" by auto
    moreover from Next_None_log[of rd s evs0 s' e] nx None Suc.prems(2) \<open>evs = evs0\<close>
    obtain start stop r' where
      "evs0 = [EvRead start stop, EvLog e]" "rd (reader s) start stop = (Inl e, r')"
      by auto
    ultimately show ?thesis by (metis append_Nil)
  next
    case (Some bm)
    obtain blocks mark where bm: "bm = (blocks, mark)" by (cases bm) auto
    obtain fin' rest where rl: "Run_loop rd n s' = (fin', rest)"
      by (cases "Run_loop rd n s'") auto
    from Suc.prems(1) nx Some bm rl
    have ev: "evs = evs0 @ batch_events (idS s') (ts s') blocks mark @ rest"
      and f: "fin = fin'" by auto
    from Next_Some_events nx Some have "EvLog e \<notin> set evs0" by fastforce
    with ev Suc.prems(2) have "EvLog e \<in> set rest" by (auto simp: log_notin_batch)
    from Suc.IH[OF rl this] obtain pre start stop r r' where
      "fin'" "rest = pre @ [EvRead start stop, EvLog e]" "rd r start stop = (Inl e, r')"
      by blast
    with ev f show ?thesis by (metis append_assoc)
  qed
qed

text \<open>
  C4, as the code has it: when the read of the current window fails, \<^verbatim>\<open>Run\<close> issues no
  further read: the read and the logged error are the last events before it calls
  \<^verbatim>\<open>Finish\<close> on every subscriber, and every such call passes \<^verbatim>\<open>nil\<close>, not the error.
  The same holds wherever in a run the error is logged: the log line ends the loop, follows
  the failed read, and the run is the loop's trace followed by \<^verbatim>\<open>Finish(nil)\<close> for each
  subscriber.
\<close>

theorem C4_read_error_ends_run_with_nil:
  "(\<not> Stop (bounds s) <s currentTime s \<longrightarrow>
    rd (reader s) (currentTime s - Period (window s)) (currentTime s) = (Inl e, r') \<longrightarrow>
      Run rd (Suc n) s
        = Some ([EvRead (currentTime s - Period (window s)) (currentTime s), EvLog e]
                @ map (\<lambda>t. EvFinish t (idS s) None) (ts s)))
   \<and> (Run_loop rd n s = (fin, evs) \<longrightarrow> EvLog e \<in> set evs \<longrightarrow>
        fin
        \<and> (\<exists>pre start stop r r1. evs = pre @ [EvRead start stop, EvLog e]
              \<and> rd r start stop = (Inl e, r1))
        \<and> Run rd n s = Some (evs @ map (\<lambda>t. EvFinish t (idS s) None) (ts s))
        \<and> finishes (evs @ map (\<lambda>t. EvFinish t (idS s) None) (ts s))
            = map (\<lambda>t. (t, None)) (ts s))"
proof -
  have a: "Run rd (Suc n) s
        = Some ([EvRead (currentTime s - Period (window s)) (currentTime s), EvLog e]
                @ map (\<lambda>t. EvFinish t (idS s) None) (ts s))"
    if "\<not> Stop (bounds s) <s currentTime s"
      "rd (reader s) (currentTime s - Period (window s)) (currentTime s) = (Inl e, r')"
    using Next_read_error[of s rd e r'] that by (simp add: Run_def)
  have b: "fin
        \<and> (\<exists>pre start stop r r1. evs = pre @ [EvRead start stop, EvLog e]
              \<and> rd r start stop = (Inl e, r1))
        \<and> Run rd n s = Some (evs @ map (\<lambda>t. EvFinish t (idS s) None) (ts s))
        \<and> finishes (evs @ map (\<lambda>t. EvFinish t (idS s) None) (ts s))
            = map (\<lambda>t. (t, None)) (ts s)"
    if l: "Run_loop rd n s = (fin, evs)" and m: "EvLog e \<in> set evs"
  proof -
    from Run_loop_log[OF l m] have f: fin
      and p: "\<exists>pre start stop r r1. evs = pre @ [EvRead start stop, EvLog e]
              \<and> rd r start stop = (Inl e, r1)" by blast+
    from l f have r: "Run rd n s = Some (evs @ map (\<lambda>t. EvFinish t (idS s) None) (ts s))"
      by (simp add: Run_def)
    from Run_loop_finishes[of rd n s] l have "finishes evs = []" by simp
    then have "finishes (evs @ map (\<lambda>t. EvFinish t (idS s) None) (ts s))
        = map (\<lambda>t. (t, None)) (ts s)"
      by (simp add: finishes_append finishes_Finish)
    with f p r show ?thesis by blast
  qed
  from a b show ?thesis by blast
qed

lemma stop7_loop:
  "Run_loop stop7_reader 3 ex_src =
     (True, [EvRead 4 5, EvProcess 0 0 3, EvUpdateProcessingTime 0 0, EvProcess 1 0 3,
             EvUpdateProcessingTime 1 0, EvUpdateWatermark 0 0 5, EvUpdateWatermark 1 0 5,
             EvRead 5 6, EvProcess 0 0 3, EvUpdateProcessingTime 0 0, EvProcess 1 0 3,
             EvUpdateProcessingTime 1 0, EvUpdateWatermark 0 0 6, EvUpdateWatermark 1 0 6,
             EvRead 6 7, EvLog (Err ''read failed'')])"
  by (simp add: numeral_3_eq_3 Next_def ex_src_def stop7_reader_def word_sless_alt
      batch_events_def)

theorem C4_read_error_ends_run_with_nil_witness:
  "\<not> Stop (bounds ex_src) <s currentTime ex_src
   \<and> failing_reader (reader ex_src) (currentTime ex_src - Period (window ex_src))
        (currentTime ex_src) = (Inl (Err ''read failed''), ())
   \<and> Run failing_reader 1 ex_src
       = Some [EvRead 4 5, EvLog (Err ''read failed''), EvFinish 0 0 None, EvFinish 1 0 None]
   \<and> EvLog (Err ''read failed'') \<in> set (snd (Run_loop stop7_reader 3 ex_src))
   \<and> fst (Run_loop stop7_reader 3 ex_src)
   \<and> Run stop7_reader 3 ex_src
       = Some (snd (Run_loop stop7_reader 3 ex_src) @ [EvFinish 0 0 None, EvFinish 1 0 None])
   \<and> finishes (snd (Run_loop stop7_reader 3 ex_src) @ [EvFinish 0 0 None, EvFinish 1 0 None])
       = [(0, None), (1, None)]"
proof -
  have a: "\<not> Stop (bounds ex_src) <s currentTime ex_src"
    by (simp add: ex_src_def word_sless_alt)
  have b: "failing_reader (reader ex_src) (currentTime ex_src - Period (window ex_src))
        (currentTime ex_src) = (Inl (Err ''read failed''), ())"
    by (simp add: failing_reader_def)
  have c: "EvLog (Err ''read failed'') \<in> set (snd (Run_loop stop7_reader 3 ex_src))"
    by (simp add: stop7_loop)
  have d: "Run_loop stop7_reader 3 ex_src
      = (fst (Run_loop stop7_reader 3 ex_src), snd (Run_loop stop7_reader 3 ex_src))"
    by simp
  have x: "idS ex_src = 0" "ts ex_src = [0, 1]" "currentTime ex_src = 5"
    "Period (window ex_src) = 1"
    by (simp_all add: ex_src_def)
  from C4_read_error_ends_run_with_nil[where s = ex_src and rd = failing_reader
      and e = "Err ''read failed''" and r' = "()" and n = 0]
    C4_read_error_ends_run_with_nil[where s = ex_src and rd = stop7_reader
      and e = "Err ''read failed''" and n = 3
      and fin = "fst (Run_loop stop7_reader 3 ex_src)"
      and evs = "snd (Run_loop stop7_reader 3 ex_src)"]
    a b c
  show ?thesis by (simp add: x)
qed

text \<open>
  C4 as stated fails: the reader fails on the first read with an error, and the run calls
  \<^verbatim>\<open>Finish\<close> on both subscribers with \<^verbatim>\<open>nil\<close>; the error is only logged.
\<close>

theorem C4_finish_gets_nil_counterexample:
  "failing_reader () 4 5 = (Inl (Err ''read failed''), ())
   \<and> Run failing_reader 1 ex_src
       = Some [EvRead 4 5, EvLog (Err ''read failed''), EvFinish 0 0 None, EvFinish 1 0 None]
   \<and> finishes (the (Run failing_reader 1 ex_src)) = [(0, None), (1, None)]"
  by (simp add: Run_def Next_def ex_src_def failing_reader_def word_sless_alt)

section \<open>The stddev aggregate\<close>

lemma n_welford: "n_agg (welford rnd a v) = fadd rnd (n_agg a) (Fin 1)"
  by (simp add: welford_def Let_def)

lemma fewer_than_two: "length (vs :: 'a list) < 2 \<Longrightarrow> vs = [] \<or> (\<exists>v. vs = [v])"
  by (cases vs) (auto simp: length_Suc_conv)

lemma few_values_NaN:
  assumes "rnd 1 = Fin 1" "n_agg a = Fin 0" "length vs < 2"
  shows "ValueFloat rnd (foldl (\<lambda>a v. welford rnd a (g v)) a vs) = NaN"
  using fewer_than_two[OF assms(3)] assms(1,2)
  by (auto simp: ValueFloat_def n_welford)

lemma DoFloat_batches: "foldl (DoFloat rnd) a vss = DoFloat rnd a (concat vss)"
  unfolding DoFloat_def by (induction vss arbitrary: a) auto

lemma DoInt_batches: "foldl (DoInt rnd) a vss = DoInt rnd a (concat vss)"
  unfolding DoInt_def by (induction vss arbitrary: a) auto

lemma DoUInt_batches: "foldl (DoUInt rnd) a vss = DoUInt rnd a (concat vss)"
  unfolding DoUInt_def by (induction vss arbitrary: a) auto

text \<open>
  C5: an aggregation starts with \<^verbatim>\<open>NewFloatAgg\<close>, \<^verbatim>\<open>NewIntAgg\<close> or
  \<^verbatim>\<open>NewUIntAgg\<close>, then takes its values in any number of \<^verbatim>\<open>Do\<close> calls. When all
  the calls together bring fewer than two values, \<^verbatim>\<open>ValueFloat\<close> is NaN, whatever the
  values are. The rounding only has to leave the number 1 as it is.
\<close>

theorem C5_fewer_than_two_values_NaN:
  assumes "rnd 1 = Fin 1"
  shows "(length (concat vss) < 2 \<longrightarrow>
            ValueFloat rnd (foldl (DoFloat rnd) (NewFloatAgg a) vss) = NaN)
       \<and> (length (concat iss) < 2 \<longrightarrow>
            ValueFloat rnd (foldl (DoInt rnd) (NewIntAgg a) iss) = NaN)
       \<and> (length (concat uss) < 2 \<longrightarrow>
            ValueFloat rnd (foldl (DoUInt rnd) (NewUIntAgg a) uss) = NaN)"
proof -
  have z: "n_agg (reset a) = Fin 0" by (simp add: reset_def)
  have f: "ValueFloat rnd (foldl (DoFloat rnd) (NewFloatAgg a) vss) = NaN"
    if "length (concat vss) < 2"
    using few_values_NaN[where rnd = rnd and a = "reset a" and vs = "concat vss"
        and g = "\<lambda>v. v"] assms z that
    by (simp add: DoFloat_batches DoFloat_def NewFloatAgg_def)
  have i: "ValueFloat rnd (foldl (DoInt rnd) (NewIntAgg a) iss) = NaN"
    if "length (concat iss) < 2"
    using few_values_NaN[where rnd = rnd and a = "reset a" and vs = "concat iss"
        and g = "float64_of_int64 rnd"] assms z that
    by (simp add: DoInt_batches DoInt_def NewIntAgg_def)
  have u: "ValueFloat rnd (foldl (DoUInt rnd) (NewUIntAgg a) uss) = NaN"
    if "length (concat uss) < 2"
    using few_values_NaN[where rnd = rnd and a = "reset a" and vs = "concat uss"
        and g = "float64_of_uint64 rnd"] assms z that
    by (simp add: DoUInt_batches DoUInt_def NewUIntAgg_def)
  from f i u show ?thesis by blast
qed

theorem C5_fewer_than_two_values_NaN_witness:
  "Fin 1 = Fin 1
   \<and> length (concat [[], [Fin 3]]) < 2
   \<and> ValueFloat Fin (foldl (DoFloat Fin) (NewFloatAgg stale_agg) [[], [Fin 3]]) = NaN
   \<and> length (concat [[7 :: 64 word]]) < 2
   \<and> ValueFloat Fin (foldl (DoInt Fin) (NewIntAgg stale_agg) [[7]]) = NaN
   \<and> length (concat ([] :: 64 word list list)) < 2
   \<and> ValueFloat Fin (foldl (DoUInt Fin) (NewUIntAgg stale_agg) []) = NaN"
  using C5_fewer_than_two_values_NaN[of Fin "[[], [Fin 3]]" stale_agg "[[7]]" "[]"]
  by simp

subsection \<open>The recurrence without rounding\<close>












subsection \<open>The rounding of binary64 on some values\<close>


























subsection \<open>The value of the aggregate\<close>







section \<open>Deserialising a toHTTP spec\<close>

text \<open>
  C10: \<^verbatim>\<open>UnmarshalJSON\<close> returns an error when the decoder fails, when the address
  does not parse as a request URI, and when the scheme of the parsed address is none of
  \<^verbatim>\<open>https\<close>, \<^verbatim>\<open>http\<close> and the empty scheme; and when it returns no error, the
  address of the resulting spec parses with one of these three schemes.
\<close>

theorem C10_UnmarshalJSON_validates_scheme:
  "(json_Unmarshal b sp = (Some err, spd) \<longrightarrow>
      UnmarshalJSON json_Unmarshal ParseRequestURI sp b = (Some err, spd))
   \<and> (json_Unmarshal b sp = (None, spd) \<longrightarrow> ParseRequestURI (Addr spd) = Inl err \<longrightarrow>
      UnmarshalJSON json_Unmarshal ParseRequestURI sp b = (Some err, spd))
   \<and> (json_Unmarshal b sp = (None, spd) \<longrightarrow> ParseRequestURI (Addr spd) = Inr u \<longrightarrow>
      Scheme u \<noteq> ''https'' \<longrightarrow> Scheme u \<noteq> ''http'' \<longrightarrow> Scheme u \<noteq> [] \<longrightarrow>
      UnmarshalJSON json_Unmarshal ParseRequestURI sp b = (Some (ErrScheme (Scheme u)), spd))
   \<and> (UnmarshalJSON json_Unmarshal ParseRequestURI sp b = (None, spk) \<longrightarrow>
      (\<exists>u'. ParseRequestURI (Addr spk) = Inr u'
         \<and> (Scheme u' = ''https'' \<or> Scheme u' = ''http'' \<or> Scheme u' = [])))"
  by (auto simp: UnmarshalJSON_def split: prod.splits option.splits sum.splits if_splits)

theorem C10_UnmarshalJSON_validates_scheme_witness:
  "addr_unmarshal ''nonsense'' newToHTTPOpSpec = (None, newToHTTPOpSpec\<lparr>Addr := ''nonsense''\<rparr>)
   \<and> three_uris ''nonsense'' = Inl (Err ''invalid URI for request'')
   \<and> UnmarshalJSON addr_unmarshal three_uris newToHTTPOpSpec ''nonsense''
       = (Some (Err ''invalid URI for request''), newToHTTPOpSpec\<lparr>Addr := ''nonsense''\<rparr>)
   \<and> three_uris ''ftp://h/w'' = Inr \<lparr>Scheme = ''ftp''\<rparr>
   \<and> UnmarshalJSON addr_unmarshal three_uris newToHTTPOpSpec ''ftp://h/w''
       = (Some (ErrScheme ''ftp''), newToHTTPOpSpec\<lparr>Addr := ''ftp://h/w''\<rparr>)
   \<and> UnmarshalJSON addr_unmarshal three_uris newToHTTPOpSpec ''http://h/w''
       = (None, newToHTTPOpSpec\<lparr>Addr := ''http://h/w''\<rparr>)
   \<and> three_uris (Addr (newToHTTPOpSpec\<lparr>Addr := ''http://h/w''\<rparr>)) = Inr \<lparr>Scheme = ''http''\<rparr>
   \<and> UnmarshalJSON (\<lambda>b sp. (Some (Err ''unexpected end of JSON input''), sp)) three_uris
        newToHTTPOpSpec [] = (Some (Err ''unexpected end of JSON input''), newToHTTPOpSpec)"
proof -
  note a = C10_UnmarshalJSON_validates_scheme[where json_Unmarshal = addr_unmarshal
      and ParseRequestURI = three_uris and sp = newToHTTPOpSpec and b = "''nonsense''"
      and spd = "newToHTTPOpSpec\<lparr>Addr := ''nonsense''\<rparr>"
      and err = "Err ''invalid URI for request''"]
  note b = C10_UnmarshalJSON_validates_scheme[where json_Unmarshal = addr_unmarshal
      and ParseRequestURI = three_uris and sp = newToHTTPOpSpec and b = "''ftp://h/w''"
      and spd = "newToHTTPOpSpec\<lparr>Addr := ''ftp://h/w''\<rparr>" and u = "\<lparr>Scheme = ''ftp''\<rparr>"]
  note c = C10_UnmarshalJSON_validates_scheme[where json_Unmarshal = addr_unmarshal
      and ParseRequestURI = three_uris and sp = newToHTTPOpSpec and b = "''http://h/w''"
      and spk = "newToHTTPOpSpec\<lparr>Addr := ''http://h/w''\<rparr>"]
  note d = C10_UnmarshalJSON_validates_scheme[where
      json_Unmarshal = "\<lambda>b sp. (Some (Err ''unexpected end of JSON input''), sp)"
      and ParseRequestURI = three_uris and sp = newToHTTPOpSpec and b = "[]"
      and spd = newToHTTPOpSpec and err = "Err ''unexpected end of JSON input''"]
  have e: "UnmarshalJSON addr_unmarshal three_uris newToHTTPOpSpec ''http://h/w''
       = (None, newToHTTPOpSpec\<lparr>Addr := ''http://h/w''\<rparr>)"
    by (simp add: UnmarshalJSON_def addr_unmarshal_def three_uris_def)
  from a b c d e show ?thesis
    by (simp add: addr_unmarshal_def three_uris_def)
qed

section \<open>Processing a block\<close>

lemma ex_block_time_column: "labels (BlockCols ex_block) (TimeColumn ex_spec) = Some (0, TTime)"
  by (simp add: labels_def ex_block_def ex_spec_def enumerate_eq_zip)

lemma ex_block_metrics: "metrics ex_spec ex_block = Inr [ex_metric]"
  by (simp add: metrics_def ex_spec_def ex_block_def ex_metric_def doCol_def bindP_def
      first0_def Times_def Strings_def SearchStrings_def Search_def
      truncateTagsAndFields_def addField_def less_eq_char_def)

lemma colsAssign_no_invalid:
  "colsAssign sp er m \<Longrightarrow> list_ex (invalidValueCol sp) er"
  by (induction er arbitrary: m) (auto split: sum.splits)

lemma readersUnread_assigns:
  "snd (readersUnread env sp ers m) \<Longrightarrow> readersAssign sp ers m"
  by (induction ers arbitrary: m) (auto split: sum.splits prod.splits if_splits)

lemma unread_assigns: "snd (unread env sp b) \<Longrightarrow> assignsErr sp b"
  by (simp add: unread_def assignsErr_def readersUnread_assigns)

lemma ex_block_assigns: "\<not> assignsErr ex_spec ex_block"
  by (simp add: assignsErr_def ex_spec_def ex_block_def invalidValueCol_def doCol_def
      bindP_def first0_def Times_def Strings_def SearchStrings_def Search_def
      truncateTagsAndFields_def addField_def less_eq_char_def)

lemma invalid_block_time_column:
  "labels (BlockCols invalid_block) (TimeColumn ex_spec) = Some (0, TTime)"
  by (simp add: labels_def invalid_block_def ex_spec_def enumerate_eq_zip)

lemma invalid_block_metrics:
  "metrics ex_spec invalid_block
     = Inr [\<lparr>m_tags = [], m_fields = [], m_name = ''m'', m_t = 1000000000\<rparr>]"
  by (simp add: metrics_def ex_spec_def invalid_block_def doCol_def bindP_def
      first0_def Times_def Strings_def SearchStrings_def Search_def
      truncateTagsAndFields_def addField_def less_eq_char_def)

lemma invalid_block_assigns: "assignsErr ex_spec invalid_block"
  by (simp add: assignsErr_def ex_spec_def invalid_block_def invalidValueCol_def doCol_def
      bindP_def first0_def Times_def Strings_def SearchStrings_def Search_def
      truncateTagsAndFields_def addField_def less_eq_char_def)

text \<open>
  C3, as the code has it. When the time column is found, the request is built and the
  client has returned a response, \<^verbatim>\<open>Process\<close> returns \<^verbatim>\<open>nil\<close>, whatever the status
  code and the body of the response are, unless an assignment of \<^verbatim>\<open>invalid type\<close> by
  the encoding goroutine has landed before one of the two tests of \<^verbatim>\<open>err\<close>. And
  \<^verbatim>\<open>Process\<close> returns an error only when the time column is missing, when it is not
  of type Time, when the request cannot be built, when the client returns an error, or
  when it is \<^verbatim>\<open>invalid type\<close> and the goroutine assigns it, for a value column of
  invalid type: never for what a response says.
\<close>

theorem C3_response_not_inspected:
  "(labels (BlockCols b) (TimeColumn sp) = Some (i, TTime) \<longrightarrow>
    NewRequestErr env (Method sp) (Addr sp) = None \<longrightarrow>
    metrics sp b = Inr ms \<longrightarrow>
    ClientDo env (NoKeepAlive sp) (buildRequest env sp ms) = Inr resp \<longrightarrow>
    \<not> (ErrSeenAtRequest env \<and> snd (unread env sp b)) \<longrightarrow>
    \<not> (ErrSeenAtResponse env \<and> assignsErr sp b) \<longrightarrow>
      Process env sp b = Return None)
   \<and> (Process env sp b = Return (Some e) \<longrightarrow>
        (labels (BlockCols b) (TimeColumn sp) = None \<and> e = Err ''Could not get time column'')
      \<or> (\<exists>j ty. labels (BlockCols b) (TimeColumn sp) = Some (j, ty) \<and> ty \<noteq> TTime
            \<and> e = ErrColumnType (TimeColumn sp) ty)
      \<or> NewRequestErr env (Method sp) (Addr sp) = Some e
      \<or> (\<exists>ms'. metrics sp b = Inr ms'
            \<and> ClientDo env (NoKeepAlive sp) (buildRequest env sp ms') = Inl e)
      \<or> (assignsErr sp b \<and> e = Err ''invalid type''))"
proof -
  have a: "Process env sp b = Return None"
    if "labels (BlockCols b) (TimeColumn sp) = Some (i, TTime)"
      "NewRequestErr env (Method sp) (Addr sp) = None"
      "metrics sp b = Inr ms"
      "ClientDo env (NoKeepAlive sp) (buildRequest env sp ms) = Inr resp"
      "\<not> (ErrSeenAtRequest env \<and> snd (unread env sp b))"
      "\<not> (ErrSeenAtResponse env \<and> assignsErr sp b)"
    using that by (auto simp: Process_def seen_def)
  have b: "(labels (BlockCols b) (TimeColumn sp) = None \<and> e = Err ''Could not get time column'')
      \<or> (\<exists>j ty. labels (BlockCols b) (TimeColumn sp) = Some (j, ty) \<and> ty \<noteq> TTime
            \<and> e = ErrColumnType (TimeColumn sp) ty)
      \<or> NewRequestErr env (Method sp) (Addr sp) = Some e
      \<or> (\<exists>ms'. metrics sp b = Inr ms'
            \<and> ClientDo env (NoKeepAlive sp) (buildRequest env sp ms') = Inl e)
      \<or> (assignsErr sp b \<and> e = Err ''invalid type'')"
    if "Process env sp b = Return (Some e)"
    using that unread_assigns[of env sp b]
    by (auto simp: Process_def seen_def split: option.splits if_splits sum.splits prod.splits)
  from a b show ?thesis by blast
qed

theorem C3_response_not_inspected_witness:
  "labels (BlockCols ex_block) (TimeColumn ex_spec) = Some (0, TTime)
   \<and> NewRequestErr status404_env (Method ex_spec) (Addr ex_spec) = None
   \<and> metrics ex_spec ex_block = Inr [ex_metric]
   \<and> ClientDo status404_env (NoKeepAlive ex_spec) (buildRequest status404_env ex_spec [ex_metric])
       = Inr \<lparr>StatusCode = 404, RespBody = ''not found''\<rparr>
   \<and> \<not> (ErrSeenAtRequest status404_env \<and> snd (unread status404_env ex_spec ex_block))
   \<and> \<not> (ErrSeenAtResponse status404_env \<and> assignsErr ex_spec ex_block)
   \<and> Process status404_env ex_spec ex_block = Return None
   \<and> Process refused_env ex_spec ex_block = Return (Some (Err ''connection refused''))
   \<and> ClientDo refused_env (NoKeepAlive ex_spec) (buildRequest refused_env ex_spec [ex_metric])
       = Inl (Err ''connection refused'')
   \<and> Process racy_env ex_spec invalid_block = Return (Some (Err ''invalid type''))
   \<and> assignsErr ex_spec invalid_block"
proof -
  have n: "NewRequestErr status404_env (Method ex_spec) (Addr ex_spec) = None"
    by (simp add: status404_env_def status500_env_def)
  have c: "ClientDo status404_env (NoKeepAlive ex_spec)
      (buildRequest status404_env ex_spec [ex_metric])
       = Inr \<lparr>StatusCode = 404, RespBody = ''not found''\<rparr>"
    by (simp add: status404_env_def)
  have r: "\<not> (ErrSeenAtRequest status404_env \<and> snd (unread status404_env ex_spec ex_block))"
    by (simp add: status404_env_def status500_env_def)
  have s: "\<not> (ErrSeenAtResponse status404_env \<and> assignsErr ex_spec ex_block)"
    by (simp add: status404_env_def status500_env_def)
  have p: "Process status404_env ex_spec ex_block = Return None"
    using C3_response_not_inspected[where env = status404_env and sp = ex_spec
        and b = ex_block and i = 0 and ms = "[ex_metric]"
        and resp = "\<lparr>StatusCode = 404, RespBody = ''not found''\<rparr>"]
      ex_block_time_column n ex_block_metrics c r s
    by blast
  have d: "ClientDo refused_env (NoKeepAlive ex_spec)
      (buildRequest refused_env ex_spec [ex_metric]) = Inl (Err ''connection refused'')"
    by (simp add: refused_env_def)
  have q: "Process refused_env ex_spec ex_block = Return (Some (Err ''connection refused''))"
    unfolding Process_def ex_block_time_column ex_block_metrics
    by (simp add: refused_env_def status500_env_def seen_def)
  have t: "Process racy_env ex_spec invalid_block = Return (Some (Err ''invalid type''))"
    unfolding Process_def invalid_block_time_column invalid_block_metrics
    using invalid_block_assigns
    by (simp add: racy_env_def status500_env_def seen_def)
  note C3_response_not_inspected[where env = refused_env and sp = ex_spec and b = ex_block
      and e = "Err ''connection refused''"]
    C3_response_not_inspected[where env = racy_env and sp = ex_spec and b = invalid_block
      and e = "Err ''invalid type''"]
  with ex_block_time_column n ex_block_metrics c r s p d q t invalid_block_assigns
  show ?thesis by blast
qed

text \<open>
  C3 as stated fails: the server answers with status 500 and a body, and \<^verbatim>\<open>Process\<close>
  returns \<^verbatim>\<open>nil\<close>.
\<close>

theorem C3_status_500_counterexample:
  "ClientDo status500_env (NoKeepAlive ex_spec) (buildRequest status500_env ex_spec [ex_metric])
       = Inr \<lparr>StatusCode = 500, RespBody = ''internal error''\<rparr>
   \<and> Process status500_env ex_spec ex_block = Return None"
proof -
  have "Process status500_env ex_spec ex_block = Return None"
    unfolding Process_def ex_block_time_column ex_block_metrics
    by (simp add: status500_env_def seen_def)
  then show ?thesis by (simp add: status500_env_def)
qed

text \<open>The encoder gets one metric for each column reader, whatever the rows it holds.\<close>

lemma readersLoop_length: "readersLoop sp ers m = Inr ms \<Longrightarrow> length ms = length ers"
  by (induction ers arbitrary: m ms) (auto simp: bindP_def split: sum.splits)

lemma metrics_length: "metrics sp b = Inr ms \<Longrightarrow> length ms = length (BlockReaders b)"
  by (simp add: metrics_def readersLoop_length)

text \<open>
  C7 fails on the code: the block has two rows, which \<^verbatim>\<open>Do\<close> passes in one column
  reader, and the encoder gets one metric, that of the first row, so the body holds one
  record.
\<close>

theorem C7_one_record_for_two_rows:
  "nrows ex_block = 2
   \<and> metrics ex_spec ex_block = Inr [ex_metric]
   \<and> m_t ex_metric = 1000000000
   \<and> body status500_env [ex_metric] = ''m'' @ [CHR 0x0A]"
proof -
  have r: "nrows ex_block = 2"
    by (simp add: nrows_def ex_block_def Len_def)
  have t: "m_t ex_metric = 1000000000"
    by (simp add: ex_metric_def)
  have b: "body status500_env [ex_metric] = ''m'' @ [CHR 0x0A]"
    by (simp add: body_def status500_env_def ex_metric_def)
  from r ex_block_metrics t b show ?thesis by blast
qed

text \<open>
  Whenever value columns are given, the spec returned has none, and its only tag column
  is the last of them.
\<close>

lemma last_value_column: "vs \<noteq> [] \<Longrightarrow> foldl (\<lambda>acc v. [] @ [v]) tc vs = [last vs]"
  by (induction vs arbitrary: tc) auto

lemma ReadArgs_value_columns:
  assumes "GetArray args ''value_columns'' = Inr (Some vs)" "vs \<noteq> []"
    and "ReadArgs ToUpper args sp = Inr sp'"
  shows "ValueColumns sp' = [] \<and> TagColumns sp' = [last vs]"
  using assms last_value_column[of vs]
  by (auto simp: ReadArgs_def bindE_def Let_def split: sum.splits)

text \<open>
  C2 fails on the code: with the tag column \<^verbatim>\<open>t1\<close> and the value columns
  \<^verbatim>\<open>_value\<close> and \<^verbatim>\<open>v2\<close>, the spec that \<^verbatim>\<open>ReadArgs\<close> returns has no value column and
  the one tag column \<^verbatim>\<open>v2\<close>; with that spec the column \<^verbatim>\<open>_value\<close> of the block is
  read as a tag, and since it holds floats the string accessor panics.
\<close>

theorem C2_value_columns_replace_tag_columns:
  "(case createToHTTPOpSpec ToUpper parent_found columns_args of
      Inl e \<Rightarrow> None | Inr sp \<Rightarrow> Some (TagColumns sp, ValueColumns sp)) = Some ([''v2''], [])
   \<and> (case createToHTTPOpSpec ToUpper parent_found columns_args of
      Inl e \<Rightarrow> None | Inr sp \<Rightarrow> Some (metrics sp ex_block)) = Some (Inl WrongColumnType)"
  by (simp add: createToHTTPOpSpec_def parent_found_def ReadArgs_def bindE_def columns_args_def
      timeout_args_def
      newToHTTPOpSpec_def DefaultTimeColLabel_def
      metrics_def ex_block_def doCol_def bindP_def first0_def Times_def Strings_def
      SearchStrings_def Search_def truncateTagsAndFields_def addField_def less_eq_char_def)

end
